theory Spec2Isabelle
  imports Complex_Main "HOL-Library.Multiset"
begin

section \<open>Values shared by the services\<close>

text \<open>
  A \<^verbatim>\<open>uuid.UUID\<close> is its 128-bit integer (the attribute \<^verbatim>\<open>int\<close> of the Python
  class); equality of UUIDs is equality of these integers.
\<close>

type_synonym uuid = nat

text \<open>
  A \<^verbatim>\<open>datetime\<close> is the record of its fields. The constructor of the Python class
  only builds values inside the calendar ranges, which \<open>valid_datetime\<close> states.
\<close>

record datetime =
  year :: nat
  month :: nat
  day :: nat
  hour :: nat
  minute :: nat
  second :: nat
  microsecond :: nat

definition valid_datetime :: "datetime \<Rightarrow> bool" where
  "valid_datetime d =
     (1 \<le> year d \<and> year d \<le> 9999 \<and> 1 \<le> month d \<and> month d \<le> 12 \<and>
      1 \<le> day d \<and> day d \<le> 31 \<and> hour d < 24 \<and> minute d < 60 \<and>
      second d < 60 \<and> microsecond d < 1000000)"

text \<open>The order of two datetimes is the lexicographic order of their fields.\<close>

definition dt_key :: "datetime \<Rightarrow> nat" where
  "dt_key d =
     (((((year d * 13 + month d) * 32 + day d) * 24 + hour d) * 60 + minute d) * 60
        + second d) * 1000000 + microsecond d"

subsection \<open>strftime with the format of the edited label\<close>

definition digit_char :: "nat \<Rightarrow> char" where
  "digit_char d = ''0123456789'' ! (d mod 10)"

definition pad2 :: "nat \<Rightarrow> string" where
  "pad2 n = [digit_char (n div 10), digit_char n]"

text \<open>A number in decimal without padding, as \<^verbatim>\<open>%d\<close> of the C library prints it.\<close>

function dec :: "nat \<Rightarrow> string" where
  "dec n = (if n < 10 then [digit_char n] else dec (n div 10) @ [digit_char n])"
  by pat_completeness auto
termination
  by (relation "measure (\<lambda>n. n)") auto

declare dec.simps [simp del]

text \<open>\<^verbatim>\<open>%b\<close>: the abbreviated month name, in the C locale.\<close>

definition month_abbr :: "nat \<Rightarrow> string" where
  "month_abbr m =
     [''Jan'', ''Feb'', ''Mar'', ''Apr'', ''May'', ''Jun'',
      ''Jul'', ''Aug'', ''Sep'', ''Oct'', ''Nov'', ''Dec''] ! ((m - 1) mod 12)"

text \<open>\<^verbatim>\<open>%I\<close>: the hour on the 12-hour clock, 12 at midnight and at noon.\<close>

definition hour12 :: "nat \<Rightarrow> nat" where
  "hour12 h = (if h mod 12 = 0 then 12 else h mod 12)"

text \<open>\<^verbatim>\<open>%p\<close>: AM before noon, PM from noon on.\<close>

definition am_pm :: "nat \<Rightarrow> string" where
  "am_pm h = (if h < 12 then ''AM'' else ''PM'')"

text \<open>\<^verbatim>\<open>d.strftime('%b %d, %Y %I:%M %p')\<close>. Python hands the format to
  \<^verbatim>\<open>strftime\<close> of the C library, which pads \<^verbatim>\<open>%d\<close>, \<^verbatim>\<open>%I\<close> and \<^verbatim>\<open>%M\<close> to
  two digits and prints \<^verbatim>\<open>%Y\<close> as the year in decimal without padding: a year
  before 1000 has fewer than four digits.\<close>

definition strftime_edited :: "datetime \<Rightarrow> string" where
  "strftime_edited d =
     month_abbr (month d) @ '' '' @ pad2 (day d) @ '', '' @ dec (year d) @ '' '' @
     pad2 (hour12 (hour d)) @ '':'' @ pad2 (minute d) @ '' '' @ am_pm (hour d)"

section \<open>Comment service: rows and schemas\<close>

text \<open>\<^verbatim>\<open>models.Comment\<close>: one row of the comments table. The table has no column for
  the edited flag or for the edited label.\<close>

record comment =
  cid :: uuid
  post_id :: uuid
  author_id :: uuid
  parent_id :: "uuid option"
  content :: string
  is_deleted :: bool
  created_at :: datetime
  updated_at :: datetime
  edited_at :: "datetime option"

text \<open>\<^verbatim>\<open>schemas.CommentInDB\<close> (and \<^verbatim>\<open>CommentResponse\<close>, which adds nothing): the
  row's columns and the two derived fields.\<close>

record CommentInDB =
  r_id :: uuid
  r_post_id :: uuid
  r_author_id :: uuid
  r_parent_id :: "uuid option"
  r_content :: string
  r_is_deleted :: bool
  r_created_at :: datetime
  r_updated_at :: datetime
  r_edited_at :: "datetime option"
  edited :: bool
  edited_at_formatted :: "string option"

text \<open>The \<^verbatim>\<open>model_validator(mode="after")\<close> of \<^verbatim>\<open>CommentInDB\<close>. A datetime is
  always truthy, so \<^verbatim>\<open>if self.edited_at\<close> tests for \<^verbatim>\<open>None\<close>.\<close>

definition compute_edited_flag :: "CommentInDB \<Rightarrow> CommentInDB" where
  "compute_edited_flag self =
     (let self1 = self\<lparr>edited := (r_edited_at self \<noteq> None)\<rparr>
      in case r_edited_at self1 of
           Some d \<Rightarrow> self1\<lparr>edited_at_formatted := Some (''edited - '' @ strftime_edited d)\<rparr>
         | None \<Rightarrow> self1)"

text \<open>Building the schema from a row (\<^verbatim>\<open>from_attributes = True\<close>): the columns are
  read from the row, the two derived fields start at their defaults, then the validator
  runs.\<close>

definition model_validate :: "comment \<Rightarrow> CommentInDB" where
  "model_validate c =
     compute_edited_flag
       \<lparr>r_id = cid c, r_post_id = post_id c, r_author_id = author_id c,
        r_parent_id = parent_id c, r_content = content c, r_is_deleted = is_deleted c,
        r_created_at = created_at c, r_updated_at = updated_at c,
        r_edited_at = edited_at c, edited = False, edited_at_formatted = None\<rparr>"

subsection \<open>UUIDs as text\<close>

definition hex_digit :: "nat \<Rightarrow> char" where
  "hex_digit d = ''0123456789abcdef'' ! (d mod 16)"

fun hex_digits :: "nat \<Rightarrow> nat \<Rightarrow> string" where
  "hex_digits 0 n = []"
| "hex_digits (Suc k) n = hex_digits k (n div 16) @ [hex_digit n]"

text \<open>\<^verbatim>\<open>str(u)\<close>: the 32 lower-case hexadecimal digits of the integer, grouped
  8-4-4-4-12.\<close>

definition uuid_str :: "uuid \<Rightarrow> string" where
  "uuid_str u =
     (let h = hex_digits 32 u
      in take 8 h @ ''-'' @ take 4 (drop 8 h) @ ''-'' @ take 4 (drop 12 h) @ ''-'' @
         take 4 (drop 16 h) @ ''-'' @ drop 20 h)"

text \<open>\<^verbatim>\<open>uuid.UUID(s)\<close>, the conversion of text to a UUID, belongs to the standard
  library. The routes that call it take it as their parameter \<open>UUID\<close>, with \<open>None\<close> for
  the \<^verbatim>\<open>ValueError\<close> it raises on text that does not spell a UUID.\<close>

subsection \<open>Errors and envelopes\<close>

text \<open>Exceptions that the service layer and the library calls raise.\<close>

datatype exn = ValueError | IntegrityError

text \<open>The detail of an \<^verbatim>\<open>HTTPException\<close>: a fixed text, or \<^verbatim>\<open>str(e)\<close> of the
  exception that was caught.\<close>

datatype detail = Text string | StrOf exn

text \<open>How a request ends when it does not succeed: an \<^verbatim>\<open>HTTPException\<close> with its
  status code and detail, a request refused by the framework's validation of its
  parameters before the handler runs (status 422), or an exception that no handler
  catches (status 500).\<close>

datatype http_error =
    HTTPException nat detail
  | RequestValidationError
  | Unhandled exn

fun status_code :: "http_error \<Rightarrow> nat" where
  "status_code (HTTPException n d) = n"
| "status_code RequestValidationError = 422"
| "status_code (Unhandled e) = 500"

text \<open>\<^verbatim>\<open>schemas.APIResponse[T]\<close> with its defaults, and \<^verbatim>\<open>PaginatedResponse[T]\<close>.\<close>

record 'a APIResponse =
  success :: bool
  message :: string
  data :: "'a option"
  error :: "string option"


definition api_response :: "'a \<Rightarrow> 'a APIResponse" where
  "api_response d = \<lparr>success = True, message = ''Success'', data = Some d, error = None\<rparr>"

subsection \<open>Request schemas\<close>

record CommentCreate =
  cc_content :: string
  cc_post_id :: "uuid option"
  cc_parent_id :: "uuid option"

record CommentUpdate =
  cu_content :: "string option"

text \<open>The \<^verbatim>\<open>Field\<close> constraints of the two bodies; the framework refuses a body that
  breaks them before the handler runs.\<close>

definition valid_CommentCreate :: "CommentCreate \<Rightarrow> bool" where
  "valid_CommentCreate b = (1 \<le> length (cc_content b) \<and> length (cc_content b) \<le> 5000)"

definition valid_CommentUpdate :: "CommentUpdate \<Rightarrow> bool" where
  "valid_CommentUpdate b =
     (case cu_content b of None \<Rightarrow> True | Some t \<Rightarrow> 1 \<le> length t \<and> length t \<le> 5000)"

text \<open>The caller as the authentication dependency hands it to a handler: a dict whose
  \<^verbatim>\<open>"user_id"\<close> entry is the subject of the verified token, as text.\<close>

record current_user =
  user_id :: string

text \<open>What a handler cannot compute from its arguments: the id and the clock reading
  that a new or a changed row receives.\<close>

record env =
  fresh_id :: uuid
  now :: datetime

section \<open>Comment service: the service layer\<close>

text \<open>The table is the list of its rows, oldest insertion first.\<close>

type_synonym comment_db = "comment list"

text \<open>Modelled from the spec: \<^verbatim>\<open>CommentService.get_by_id\<close> is missing from the
  sources. It fetches the comment with the given id, and reports absence.\<close>

definition get_by_id :: "comment_db \<Rightarrow> uuid \<Rightarrow> comment option" where
  "get_by_id db i = find (\<lambda>c. cid c = i) db"

text \<open>Modelled from the spec: the replies of a comment, read by
  \<^verbatim>\<open>CommentService.build_comment_tree\<close> (missing from the sources): the comments whose
  \<open>parent_id\<close> is the given id, soft-deleted ones excluded, in ascending order of
  \<open>created_at\<close> (rows created at the same instant keep their insertion order).\<close>

definition get_replies :: "comment_db \<Rightarrow> uuid \<Rightarrow> comment list" where
  "get_replies db i =
     sort_key (\<lambda>c. dt_key (created_at c))
       (filter (\<lambda>c. parent_id c = Some i \<and> \<not> is_deleted c) db)"

text \<open>\<^verbatim>\<open>schemas.CommentWithReplies\<close>: the fields of \<^verbatim>\<open>CommentInDB\<close> and the
  replies, each of the same shape.\<close>

datatype CommentWithReplies =
  CommentWithReplies (node: CommentInDB) (replies: "CommentWithReplies list")

text \<open>Modelled from the spec: \<^verbatim>\<open>CommentService.build_comment_tree\<close> is missing from
  the sources. It is a direct recursive lookup: the node of a comment carries the
  comment's fields and the trees of its replies. The spec leaves rows whose \<open>parent_id\<close>
  form a cycle undefended, so the recursion need not end; the first argument bounds its
  depth and \<open>None\<close> is a recursion that did not end within the bound.\<close>

fun build_comment_tree :: "nat \<Rightarrow> comment_db \<Rightarrow> comment \<Rightarrow> CommentWithReplies option" where
  "build_comment_tree 0 db c = None"
| "build_comment_tree (Suc n) db c =
     map_option (CommentWithReplies (model_validate c))
       (those (map (build_comment_tree n db) (get_replies db (cid c))))"

text \<open>Modelled from the spec: \<^verbatim>\<open>CommentService.create\<close> is missing from the sources.
  It stores a new row: the content, post and parent of the body, the author it is given,
  not deleted, created and updated now, never edited. The \<open>post_id\<close> column is not
  nullable (\<^verbatim>\<open>models.py\<close>), so a body without one is not stored.\<close>

definition service_create ::
  "env \<Rightarrow> comment_db \<Rightarrow> CommentCreate \<Rightarrow> uuid \<Rightarrow> exn + (comment \<times> comment_db)" where
  "service_create e db obj_in author =
     (case cc_post_id obj_in of
        None \<Rightarrow> Inl IntegrityError
      | Some p \<Rightarrow>
          let c = \<lparr>cid = fresh_id e, post_id = p, author_id = author,
                   parent_id = cc_parent_id obj_in, content = cc_content obj_in,
                   is_deleted = False, created_at = now e, updated_at = now e,
                   edited_at = None\<rparr>
          in Inr (c, db @ [c]))"

text \<open>Modelled from the spec: \<^verbatim>\<open>CommentService.update\<close> is missing from the sources.
  A content edit replaces the content and sets \<open>edited_at\<close>; \<open>updated_at\<close> is refreshed on
  any mutation. The row is found by its primary key.\<close>

definition service_update ::
  "env \<Rightarrow> comment_db \<Rightarrow> comment \<Rightarrow> CommentUpdate \<Rightarrow> comment \<times> comment_db" where
  "service_update e db c obj_in =
     (let c' = (case cu_content obj_in of
                  None \<Rightarrow> c
                | Some t \<Rightarrow> c\<lparr>content := t, edited_at := Some (now e), updated_at := now e\<rparr>)
      in (c', map (\<lambda>r. if cid r = cid c then c' else r) db))"

text \<open>Modelled from the spec: \<^verbatim>\<open>CommentService.delete\<close> is missing from the sources.
  Only the author soft-deletes a comment: the row is kept and flagged. The result is
  false when no comment has the id or when the comment is not the caller's.\<close>

definition service_delete ::
  "env \<Rightarrow> comment_db \<Rightarrow> uuid \<Rightarrow> uuid \<Rightarrow> bool \<times> comment_db" where
  "service_delete e db comment_id author =
     (case get_by_id db comment_id of
        None \<Rightarrow> (False, db)
      | Some c \<Rightarrow>
          if author_id c \<noteq> author then (False, db)
          else (True, map (\<lambda>r. if cid r = comment_id
                                then r\<lparr>is_deleted := True, updated_at := now e\<rparr> else r) db))"



section \<open>Comment service: the routes\<close>

text \<open>A handler returns how the request ended and the table as it leaves it.\<close>

text \<open>\<^verbatim>\<open>POST /comments\<close>\<close>

definition create_comment ::
  "(string \<Rightarrow> uuid option) \<Rightarrow> env \<Rightarrow> comment_db \<Rightarrow> CommentCreate \<Rightarrow> current_user \<Rightarrow>
   (http_error + CommentInDB APIResponse) \<times> comment_db" where
  "create_comment UUID e db comment_in cu =
     (if \<not> valid_CommentCreate comment_in then (Inl RequestValidationError, db)
      else case UUID (user_id cu) of
        None \<Rightarrow> (Inl (HTTPException 400 (StrOf ValueError)), db)
      | Some a \<Rightarrow>
          (case service_create e db comment_in a of
             Inl ValueError \<Rightarrow> (Inl (HTTPException 400 (StrOf ValueError)), db)
           | Inl x \<Rightarrow> (Inl (Unhandled x), db)
           | Inr (c, db') \<Rightarrow> (Inr (api_response (model_validate c)), db')))"


text \<open>\<^verbatim>\<open>POST /comments/post/{post_id}\<close>\<close>

definition create_comment_by_post ::
  "(string \<Rightarrow> uuid option) \<Rightarrow> env \<Rightarrow> comment_db \<Rightarrow> uuid \<Rightarrow> CommentCreate \<Rightarrow> current_user \<Rightarrow>
   (http_error + CommentInDB APIResponse) \<times> comment_db" where
  "create_comment_by_post UUID e db p comment_in cu =
     (if \<not> valid_CommentCreate comment_in then (Inl RequestValidationError, db)
      else
        let comment_with_post = comment_in\<lparr>cc_post_id := Some p\<rparr>
        in case UUID (user_id cu) of
          None \<Rightarrow> (Inl (HTTPException 400 (StrOf ValueError)), db)
        | Some a \<Rightarrow>
            (case service_create e db comment_with_post a of
               Inl ValueError \<Rightarrow> (Inl (HTTPException 400 (StrOf ValueError)), db)
             | Inl x \<Rightarrow> (Inl (Unhandled x), db)
             | Inr (c, db') \<Rightarrow> (Inr (api_response (model_validate c)), db')))"

text \<open>\<^verbatim>\<open>GET /comments/{comment_id}\<close>. Without the replies, the response model fills
  the replies with its default, the empty list. The first argument bounds the depth of
  the tree assembly; the result is \<open>None\<close> when the assembly did not end within it.\<close>

definition get_comment ::
  "nat \<Rightarrow> comment_db \<Rightarrow> uuid \<Rightarrow> bool \<Rightarrow>
   ((http_error + CommentWithReplies APIResponse) \<times> comment_db) option" where
  "get_comment depth db comment_id include_replies =
     (case get_by_id db comment_id of
        None \<Rightarrow> Some (Inl (HTTPException 404 (Text ''Comment not found'')), db)
      | Some c \<Rightarrow>
          if include_replies
          then map_option (\<lambda>t. (Inr (api_response t), db)) (build_comment_tree depth db c)
          else Some (Inr (api_response (CommentWithReplies (model_validate c) [])), db))"

text \<open>\<^verbatim>\<open>PUT /comments/{comment_id}\<close>\<close>

definition update_comment ::
  "env \<Rightarrow> comment_db \<Rightarrow> uuid \<Rightarrow> CommentUpdate \<Rightarrow> current_user \<Rightarrow>
   (http_error + CommentInDB APIResponse) \<times> comment_db" where
  "update_comment e db comment_id comment_in cu =
     (if \<not> valid_CommentUpdate comment_in then (Inl RequestValidationError, db)
      else case get_by_id db comment_id of
        None \<Rightarrow> (Inl (HTTPException 404 (Text ''Comment not found'')), db)
      | Some c \<Rightarrow>
          if uuid_str (author_id c) \<noteq> user_id cu
          then (Inl (HTTPException 403 (Text ''Not authorized to update this comment'')), db)
          else let (c', db') = service_update e db c comment_in
               in (Inr (api_response (model_validate c')), db'))"

text \<open>\<^verbatim>\<open>DELETE /comments/{comment_id}\<close>. The conversion of the caller's id stands
  outside any \<^verbatim>\<open>try\<close>.\<close>

definition delete_comment ::
  "(string \<Rightarrow> uuid option) \<Rightarrow> env \<Rightarrow> comment_db \<Rightarrow> uuid \<Rightarrow> current_user \<Rightarrow>
   (http_error + ((string \<times> bool) list) APIResponse) \<times> comment_db" where
  "delete_comment UUID e db comment_id cu =
     (case UUID (user_id cu) of
        None \<Rightarrow> (Inl (Unhandled ValueError), db)
      | Some a \<Rightarrow>
          let (ok, db') = service_delete e db comment_id a
          in if \<not> ok
             then (Inl (HTTPException 404 (Text ''Comment not found or not authorized'')), db')
             else (Inr (api_response [(''deleted'', True)]), db'))"

section \<open>Post service: rows and the service layer\<close>

record tag =
  t_id :: uuid
  t_name :: string
  t_slug :: string

text \<open>Modelled from the spec: \<^verbatim>\<open>app.models.Post\<close> is missing from the sources. A row
  has the attributes that the routes read.\<close>

record post =
  p_id :: uuid
  p_author_id :: uuid
  p_title :: string
  p_slug :: string
  p_content :: string
  p_summary :: "string option"
  p_status :: string
  p_view_count :: int
  p_tags :: "tag list"
  p_created_at :: datetime
  p_updated_at :: datetime
  p_published_at :: "datetime option"

text \<open>The posts table, and the profiles of the users schema that the routes read for the
  author's username.\<close>

record post_db =
  posts :: "post list"
  profiles :: "(uuid \<times> string) list"

text \<open>Modelled from the spec: \<^verbatim>\<open>PostUpdate\<close> is missing from the sources; a partial
  update of the fields an author edits.\<close>

record PostUpdate =
  pu_title :: "string option"
  pu_content :: "string option"
  pu_summary :: "string option"
  pu_status :: "string option"

text \<open>The spec does not say how a tag filter or a search term matches a post; both tests
  are left open.\<close>

record matcher =
  tag_match :: "string \<Rightarrow> post \<Rightarrow> bool"
  text_match :: "string \<Rightarrow> post \<Rightarrow> bool"

text \<open>Modelled from the spec: \<^verbatim>\<open>get_post_by_id\<close> and \<^verbatim>\<open>get_post_by_slug\<close> are
  missing from the sources; they fetch the post with the id or the slug.\<close>

definition get_post_by_id :: "post_db \<Rightarrow> uuid \<Rightarrow> post option" where
  "get_post_by_id db i = find (\<lambda>p. p_id p = i) (posts db)"

definition get_post_by_slug :: "post_db \<Rightarrow> string \<Rightarrow> post option" where
  "get_post_by_slug db s = find (\<lambda>p. p_slug p = s) (posts db)"

text \<open>Modelled from the spec: \<^verbatim>\<open>increment_view_count\<close> is missing from the sources; it
  adds one to the stored counter of the post with the id, in a single update statement on
  the table (\<^verbatim>\<open>count = count + 1\<close>). The statement changes the stored row, not the
  object that a handler read before it.\<close>

definition increment_view_count :: "post_db \<Rightarrow> uuid \<Rightarrow> post_db" where
  "increment_view_count db i =
     db\<lparr>posts := map (\<lambda>p. if p_id p = i then p\<lparr>p_view_count := p_view_count p + 1\<rparr> else p)
                    (posts db)\<rparr>"

text \<open>Modelled from the spec: \<^verbatim>\<open>list_posts\<close> is missing from the sources. It applies
  the filters that are given, all of them, counts the posts that pass, and returns the
  rows from \<open>skip\<close> on, at most \<open>limit\<close> of them, each with its author's username. The
  spec leaves the order open; the rows keep the order of the table. It is a read: the
  database it returns is the one it was given.\<close>

definition list_posts ::
  "matcher \<Rightarrow> post_db \<Rightarrow> string option \<Rightarrow> uuid option \<Rightarrow> string option \<Rightarrow> string option \<Rightarrow>
   int \<Rightarrow> int \<Rightarrow> ((post \<times> string option) list \<times> int) \<times> post_db" where
  "list_posts m db status author tg search skip limit =
     (let rows = filter (\<lambda>p.
                   (case status of None \<Rightarrow> True | Some st \<Rightarrow> p_status p = st) \<and>
                   (case author of None \<Rightarrow> True | Some a \<Rightarrow> p_author_id p = a) \<and>
                   (case tg of None \<Rightarrow> True | Some t \<Rightarrow> tag_match m t p) \<and>
                   (case search of None \<Rightarrow> True | Some q \<Rightarrow> text_match m q p)) (posts db)
      in ((map (\<lambda>p. (p, map_of (profiles db) (p_author_id p)))
             (take (nat limit) (drop (nat skip) rows)), int (length rows)), db))"

text \<open>Modelled from the spec: \<^verbatim>\<open>update_post\<close> of the service layer is missing from the
  sources. It changes the given fields of the post with the id when the post is the
  user's, and returns nothing otherwise.\<close>

definition update_post ::
  "env \<Rightarrow> post_db \<Rightarrow> uuid \<Rightarrow> uuid \<Rightarrow> PostUpdate \<Rightarrow> post option \<times> post_db" where
  "update_post e db i user post_data =
     (case get_post_by_id db i of
        None \<Rightarrow> (None, db)
      | Some p \<Rightarrow>
          if p_author_id p \<noteq> user then (None, db)
          else
            let p' = p\<lparr>p_title := (case pu_title post_data of None \<Rightarrow> p_title p | Some t \<Rightarrow> t),
                       p_content := (case pu_content post_data of None \<Rightarrow> p_content p
                                     | Some t \<Rightarrow> t),
                       p_summary := (case pu_summary post_data of None \<Rightarrow> p_summary p
                                     | Some t \<Rightarrow> Some t),
                       p_status := (case pu_status post_data of None \<Rightarrow> p_status p
                                    | Some t \<Rightarrow> t),
                       p_updated_at := now e\<rparr>
            in (Some p', db\<lparr>posts := map (\<lambda>r. if p_id r = i then p' else r) (posts db)\<rparr>))"

text \<open>\<^verbatim>\<open>db.delete(post); db.commit()\<close>: the row with the post's primary key leaves
  the table.\<close>

definition db_delete :: "post_db \<Rightarrow> post \<Rightarrow> post_db" where
  "db_delete db p = db\<lparr>posts := filter (\<lambda>r. p_id r \<noteq> p_id p) (posts db)\<rparr>"

subsection \<open>The caller of a protected route\<close>

text \<open>The claims of a decoded token that the routes read.\<close>

record jwt_payload =
  sub :: "string option"

text \<open>\<^verbatim>\<open>get_current_user_id\<close>. The argument \<open>jwt_decode\<close> stands for
  \<^verbatim>\<open>jwt.decode(token, settings.JWT_SECRET_KEY, algorithms=[settings.JWT_ALGORITHM])\<close>,
  the library's verification under the configured secret and algorithm, with \<open>None\<close>
  for \<^verbatim>\<open>JWTError\<close>. A subject that is not the text of a UUID raises \<^verbatim>\<open>ValueError\<close>,
  which the \<^verbatim>\<open>except JWTError\<close> clause does not catch.\<close>

definition get_current_user_id ::
  "(string \<Rightarrow> uuid option) \<Rightarrow> (string \<Rightarrow> jwt_payload option) \<Rightarrow> string \<Rightarrow>
   http_error + uuid" where
  "get_current_user_id UUID jwt_decode token =
     (case jwt_decode token of
        None \<Rightarrow> Inl (HTTPException 401 (Text ''Invalid authentication credentials''))
      | Some payload \<Rightarrow>
          (case sub payload of
             None \<Rightarrow> Inl (HTTPException 401 (Text ''Invalid authentication credentials''))
           | Some uid \<Rightarrow>
               (case UUID uid of
                  None \<Rightarrow> Inl (Unhandled ValueError)
                | Some u \<Rightarrow> Inr u)))"

text \<open>\<^verbatim>\<open>security = HTTPBearer()\<close> is the framework's dependency that takes the bearer
  token from the request. A protected route of the post service is the handler as the
  source writes it: it runs once the framework has handed it the credentials, and its
  argument \<open>token\<close> is \<^verbatim>\<open>credentials.credentials\<close>.\<close>

section \<open>Post service: the routes\<close>

text \<open>\<^verbatim>\<open>d.isoformat()\<close> of a naive datetime; the year has four digits.\<close>

definition pad4 :: "nat \<Rightarrow> string" where
  "pad4 n = [digit_char (n div 1000), digit_char (n div 100), digit_char (n div 10),
             digit_char n]"

definition pad6 :: "nat \<Rightarrow> string" where
  "pad6 n = [digit_char (n div 100000), digit_char (n div 10000), digit_char (n div 1000),
             digit_char (n div 100), digit_char (n div 10), digit_char n]"

definition isoformat :: "datetime \<Rightarrow> string" where
  "isoformat d =
     pad4 (year d) @ ''-'' @ pad2 (month d) @ ''-'' @ pad2 (day d) @ ''T'' @
     pad2 (hour d) @ '':'' @ pad2 (minute d) @ '':'' @ pad2 (second d) @
     (if microsecond d = 0 then [] else ''.'' @ pad6 (microsecond d))"

text \<open>The envelope of the post service and the dicts that its routes return.\<close>

record 'a PostAPIResponse =
  ps_success :: bool
  ps_data :: "'a option"
  ps_message :: string
  ps_errors :: "string list option"

record tag_out =
  to_id :: string
  to_name :: string
  to_slug :: string

definition tags_out :: "post \<Rightarrow> tag_out list" where
  "tags_out p = map (\<lambda>t. \<lparr>to_id = uuid_str (t_id t), to_name = t_name t, to_slug = t_slug t\<rparr>)
                  (p_tags p)"

record post_summary =
  s_id :: string
  s_author_id :: string
  s_author_username :: "string option"
  s_title :: string
  s_slug :: string
  s_summary :: "string option"
  s_status :: string
  s_view_count :: int
  s_tags :: "tag_out list"
  s_created_at :: string
  s_published_at :: "string option"

record pagination =
  total :: int
  page :: int
  limit :: int
  total_pages :: int
  has_next :: bool
  has_prev :: bool

record post_listing =
  items :: "post_summary list"
  pagination :: pagination

record post_detail =
  d_id :: string
  d_author_id :: string
  d_author_username :: "string option"
  d_title :: string
  d_slug :: string
  d_content :: string
  d_summary :: "string option"
  d_status :: string
  d_view_count :: int
  d_tags :: "tag_out list"
  d_created_at :: string
  d_updated_at :: string
  d_published_at :: "string option"

record post_brief =
  b_id :: string
  b_slug :: string
  b_title :: string
  b_status :: string
  b_updated_at :: string

definition summary_of :: "post \<times> string option \<Rightarrow> post_summary" where
  "summary_of pu =
     (let p = fst pu in
      \<lparr>s_id = uuid_str (p_id p), s_author_id = uuid_str (p_author_id p),
       s_author_username = snd pu, s_title = p_title p, s_slug = p_slug p,
       s_summary = p_summary p, s_status = p_status p, s_view_count = p_view_count p,
       s_tags = tags_out p, s_created_at = isoformat (p_created_at p),
       s_published_at = map_option isoformat (p_published_at p)\<rparr>)"

text \<open>\<^verbatim>\<open>GET /posts/\<close>. The bounds on \<open>page\<close> and \<open>limit\<close> and the pattern of \<open>status\<close>
  are checked by the framework before the handler runs. An empty \<open>author_id\<close> is falsy
  and is no filter.\<close>

definition list_all_posts ::
  "(string \<Rightarrow> uuid option) \<Rightarrow> matcher \<Rightarrow> post_db \<Rightarrow> int \<Rightarrow> int \<Rightarrow> string option \<Rightarrow> string option \<Rightarrow> string option \<Rightarrow>
   string option \<Rightarrow> (http_error + post_listing PostAPIResponse) \<times> post_db" where
  "list_all_posts UUID m db pg lmt status author tg search =
     (if \<not> (1 \<le> pg) \<or> \<not> (1 \<le> lmt \<and> lmt \<le> 100) \<or>
         (case status of None \<Rightarrow> False
          | Some st \<Rightarrow> st \<notin> set [''draft'', ''published'', ''archived''])
      then (Inl RequestValidationError, db)
      else
        let skip = (pg - 1) * lmt;
            author_uuid = (case author of
                             None \<Rightarrow> Some None
                           | Some a \<Rightarrow> if a = [] then Some None
                                       else map_option Some (UUID a))
        in case author_uuid of
             None \<Rightarrow> (Inl (Unhandled ValueError), db)
           | Some au \<Rightarrow>
               let ((results, tot), db') = list_posts m db status au tg search skip lmt;
                   tp = (tot + lmt - 1) div lmt
               in (Inr \<lparr>ps_success = True,
                         ps_data = Some \<lparr>items = map summary_of results,
                            pagination = \<lparr>total = tot, page = pg, limit = lmt,
                              total_pages = tp, has_next = (pg < tp),
                              has_prev = (pg > 1)\<rparr>\<rparr>,
                         ps_message = ''Posts retrieved successfully'',
                         ps_errors = None\<rparr>, db'))"

text \<open>\<^verbatim>\<open>GET /posts/{slug}/\<close>. The post was read before the counter was raised, and
  the response reports \<^verbatim>\<open>post.view_count + 1\<close> (the source's comment: already
  incremented): one more than the count that was read.\<close>

definition get_post ::
  "post_db \<Rightarrow> string \<Rightarrow> (http_error + post_detail PostAPIResponse) \<times> post_db" where
  "get_post db slug =
     (case get_post_by_slug db slug of
        None \<Rightarrow> (Inl (HTTPException 404 (Text ''Post not found'')), db)
      | Some p \<Rightarrow>
          let db' = increment_view_count db (p_id p);
              author_username = map_of (profiles db') (p_author_id p)
          in (Inr \<lparr>ps_success = True,
                    ps_data = Some
                      \<lparr>d_id = uuid_str (p_id p), d_author_id = uuid_str (p_author_id p),
                       d_author_username = author_username, d_title = p_title p,
                       d_slug = p_slug p, d_content = p_content p,
                       d_summary = p_summary p, d_status = p_status p,
                       d_view_count = p_view_count p + 1, d_tags = tags_out p,
                       d_created_at = isoformat (p_created_at p),
                       d_updated_at = isoformat (p_updated_at p),
                       d_published_at = map_option isoformat (p_published_at p)\<rparr>,
                    ps_message = ''Post retrieved successfully'', ps_errors = None\<rparr>, db'))"

text \<open>The lookup shared by the update and the delete route: by UUID first when the
  identifier is the text of one, then by slug.\<close>

definition find_post :: "(string \<Rightarrow> uuid option) \<Rightarrow> post_db \<Rightarrow> string \<Rightarrow> post option" where
  "find_post UUID db post_identifier =
     (let post = (case UUID post_identifier of
                    Some i \<Rightarrow> get_post_by_id db i
                  | None \<Rightarrow> None)
      in case post of
           Some p \<Rightarrow> Some p
         | None \<Rightarrow> get_post_by_slug db post_identifier)"

text \<open>\<^verbatim>\<open>PUT /posts/{post_identifier}/\<close>\<close>

definition update_existing_post ::
  "(string \<Rightarrow> uuid option) \<Rightarrow> (string \<Rightarrow> jwt_payload option) \<Rightarrow> env \<Rightarrow> post_db \<Rightarrow> string \<Rightarrow> PostUpdate \<Rightarrow>
   string \<Rightarrow> (http_error + post_brief PostAPIResponse) \<times> post_db" where
  "update_existing_post UUID jwt_decode e db post_identifier post_data token =
     (case get_current_user_id UUID jwt_decode token of
        Inl err \<Rightarrow> (Inl err, db)
      | Inr uid \<Rightarrow>
          (case find_post UUID db post_identifier of
             None \<Rightarrow> (Inl (HTTPException 404
                        (Text ''Post not found or you don't have permission'')), db)
           | Some p \<Rightarrow>
               if p_author_id p \<noteq> uid
               then (Inl (HTTPException 403
                       (Text ''You don't have permission to update this post'')), db)
               else
                 (case update_post e db (p_id p) uid post_data of
                    (None, db') \<Rightarrow>
                      (Inl (HTTPException 404
                         (Text ''Post not found or you don't have permission'')), db')
                  | (Some u, db') \<Rightarrow>
                      (Inr \<lparr>ps_success = True,
                            ps_data = Some \<lparr>b_id = uuid_str (p_id u), b_slug = p_slug u,
                               b_title = p_title u, b_status = p_status u,
                               b_updated_at = isoformat (p_updated_at u)\<rparr>,
                            ps_message = ''Post updated successfully'',
                            ps_errors = None\<rparr>, db'))))"

text \<open>\<^verbatim>\<open>DELETE /posts/{post_identifier}/\<close>\<close>

definition delete_existing_post ::
  "(string \<Rightarrow> uuid option) \<Rightarrow> (string \<Rightarrow> jwt_payload option) \<Rightarrow> post_db \<Rightarrow> string \<Rightarrow> string \<Rightarrow>
   (http_error + unit PostAPIResponse) \<times> post_db" where
  "delete_existing_post UUID jwt_decode db post_identifier token =
     (case get_current_user_id UUID jwt_decode token of
        Inl err \<Rightarrow> (Inl err, db)
      | Inr uid \<Rightarrow>
          (case find_post UUID db post_identifier of
             None \<Rightarrow> (Inl (HTTPException 404 (Text ''Post not found'')), db)
           | Some p \<Rightarrow>
               if p_author_id p \<noteq> uid
               then (Inl (HTTPException 403
                       (Text ''You don't have permission to delete this post'')), db)
               else (Inr \<lparr>ps_success = True, ps_data = None,
                          ps_message = ''Post deleted successfully'', ps_errors = None\<rparr>,
                     db_delete db p)))"

text \<open>\<^verbatim>\<open>POST /posts/\<close>. \<^verbatim>\<open>create_post\<close> of the service layer is missing from the
  sources and the spec does not say how it forms the slug; it is a parameter here.\<close>

definition create_new_post ::
  "(string \<Rightarrow> uuid option) \<Rightarrow> (string \<Rightarrow> jwt_payload option) \<Rightarrow> (post_db \<Rightarrow> uuid \<Rightarrow> 'b \<Rightarrow> post \<times> post_db) \<Rightarrow> post_db \<Rightarrow>
   'b \<Rightarrow> string \<Rightarrow> (http_error + post_brief PostAPIResponse) \<times> post_db" where
  "create_new_post UUID jwt_decode create_post db post_data token =
     (case get_current_user_id UUID jwt_decode token of
        Inl err \<Rightarrow> (Inl err, db)
      | Inr uid \<Rightarrow>
          let (p, db') = create_post db uid post_data
          in (Inr \<lparr>ps_success = True,
                    ps_data = Some \<lparr>b_id = uuid_str (p_id p), b_slug = p_slug p,
                       b_title = p_title p, b_status = p_status p,
                       b_updated_at = isoformat (p_created_at p)\<rparr>,
                    ps_message = ''Post created successfully'', ps_errors = None\<rparr>, db'))"

section \<open>Properties stated by the specification\<close>

text \<open>The edited label as the specification words it:
  \<^verbatim>\<open>edited - <Mon DD, YYYY hh:mm AM/PM>\<close>. The label is read back, not printed: a
  text is the label of a datetime when it is \<^verbatim>\<open>edited - \<close>, the English short name of
  the month, a blank, the day in two digits, a comma and a blank, the year in decimal
  digits (four of them from the year 1000 on), a blank, the hour of the 12-hour clock in
  two digits, a colon, the minute in two digits, a blank, and \<^verbatim>\<open>AM\<close> before noon or
  \<^verbatim>\<open>PM\<close> from noon on.\<close>

definition is_digit :: "char \<Rightarrow> bool" where
  "is_digit c = (48 \<le> (of_char c :: nat) \<and> (of_char c :: nat) \<le> 57)"

definition read_dec :: "string \<Rightarrow> nat option" where
  "read_dec s =
     (if s = [] \<or> \<not> list_all is_digit s then None
      else Some (foldl (\<lambda>n c. 10 * n + (of_char c - 48)) 0 s))"

definition month_of_abbr :: "string \<Rightarrow> nat option" where
  "month_of_abbr =
     map_of [(''Jan'', 1), (''Feb'', 2), (''Mar'', 3), (''Apr'', 4), (''May'', 5), (''Jun'', 6),
             (''Jul'', 7), (''Aug'', 8), (''Sep'', 9), (''Oct'', 10), (''Nov'', 11),
             (''Dec'', 12)]"

definition edited_label_spec :: "datetime \<Rightarrow> string \<Rightarrow> bool" where
  "edited_label_spec d s =
     (\<exists>mon dd yyyy hh mm ap.
        s = ''edited - '' @ mon @ '' '' @ dd @ '', '' @ yyyy @ '' '' @ hh @ '':'' @ mm @
            '' '' @ ap \<and>
        month_of_abbr mon = Some (month d) \<and>
        length dd = 2 \<and> read_dec dd = Some (day d) \<and>
        read_dec yyyy = Some (year d) \<and> (year d < 1000 \<or> length yyyy = 4) \<and>
        length hh = 2 \<and>
        read_dec hh = Some (if hour d = 0 \<or> hour d = 12 then 12 else hour d mod 12) \<and>
        length mm = 2 \<and> read_dec mm = Some (minute d) \<and>
        (hour d < 12 \<and> ap = ''AM'' \<or> 12 \<le> hour d \<and> ap = ''PM''))"


text \<open>The reply tree as the specification words it: at every node the children are
  exactly the comments that are not soft-deleted and have the node's id as \<open>parent_id\<close>,
  each once, in ascending order of \<open>created_at\<close>.\<close>

fun tree_ok :: "comment_db \<Rightarrow> CommentWithReplies \<Rightarrow> bool" where
  "tree_ok db (CommentWithReplies x rs) =
     (mset (map node rs) =
        image_mset model_validate
          (filter_mset (\<lambda>c. parent_id c = Some (r_id x) \<and> \<not> is_deleted c) (mset db)) \<and>
      sorted (map (\<lambda>r. dt_key (r_created_at (node r))) rs) \<and>
      (\<forall>r \<in> set rs. tree_ok db r))"

section \<open>Example data\<close>

definition t_at :: "nat \<Rightarrow> datetime" where
  "t_at h = \<lparr>year = 2024, month = 1, day = 2, hour = h, minute = 0, second = 0,
             microsecond = 0\<rparr>"

definition ex_comment :: "uuid \<Rightarrow> uuid option \<Rightarrow> uuid \<Rightarrow> bool \<Rightarrow> nat \<Rightarrow> comment" where
  "ex_comment i par a del h =
     \<lparr>cid = i, post_id = 9, author_id = a, parent_id = par, content = ''text'',
      is_deleted = del, created_at = t_at h, updated_at = t_at h, edited_at = None\<rparr>"

text \<open>A thread: comment 1 with the replies 2 (written at 11), 3 (written at 10) and 4
  (soft-deleted), and comment 7 in reply to 3.\<close>

definition ex_thread :: comment_db where
  "ex_thread =
     [ex_comment 1 None 5 False 8, ex_comment 2 (Some 1) 6 False 11,
      ex_comment 3 (Some 1) 5 False 10, ex_comment 4 (Some 1) 6 True 9,
      ex_comment 7 (Some 3) 6 False 12]"

text \<open>A corrupted table: a comment that is its own parent.\<close>

definition ex_cycle :: comment_db where
  "ex_cycle = [ex_comment 1 (Some 1) 5 False 8]"

text \<open>A rank for the thread: every reply that is not soft-deleted ranks below its
  parent.\<close>

definition ex_rank :: "uuid \<Rightarrow> nat" where
  "ex_rank i = (if i = 1 then 2 else if i = 3 then 1 else 0)"

definition ex_env :: env where
  "ex_env = \<lparr>fresh_id = 8, now = t_at 13\<rparr>"

definition ex_user :: "nat \<Rightarrow> current_user" where
  "ex_user k = \<lparr>user_id = ''00000000-0000-0000-0000-00000000000'' @ [digit_char k]\<rparr>"

text \<open>\<^verbatim>\<open>uuid.UUID\<close> on the texts that occur in the examples: the canonical spellings
  of the ids 5 and 7 are converted, the slugs and names are refused.\<close>

definition ex_UUID :: "string \<Rightarrow> uuid option" where
  "ex_UUID s =
     (if s = ''00000000-0000-0000-0000-000000000005'' then Some 5
      else if s = ''00000000-0000-0000-0000-000000000007'' then Some 7
      else None)"

definition ex_post :: "uuid \<Rightarrow> uuid \<Rightarrow> string \<Rightarrow> int \<Rightarrow> post" where
  "ex_post i a s v =
     \<lparr>p_id = i, p_author_id = a, p_title = ''Title'', p_slug = s, p_content = ''Body'',
      p_summary = None, p_status = ''published'', p_view_count = v, p_tags = [],
      p_created_at = t_at 8, p_updated_at = t_at 8, p_published_at = Some (t_at 8)\<rparr>"

definition ex_posts :: post_db where
  "ex_posts = \<lparr>posts = [ex_post 1 5 ''first'' 41, ex_post 2 6 ''second'' 7],
               profiles = [(5, ''ann''), (6, ''bob'')]\<rparr>"

text \<open>A token verifier that accepts the token \<open>good\<close>, whose subject is user 5, and the
  token \<open>anon\<close>, which has no subject.\<close>

definition ex_decode :: "string \<Rightarrow> jwt_payload option" where
  "ex_decode token =
     (if token = ''good'' then Some \<lparr>sub = Some ''00000000-0000-0000-0000-000000000005''\<rparr>
      else if token = ''anon'' then Some \<lparr>sub = None\<rparr>
      else None)"

definition ex_matcher :: matcher where
  "ex_matcher = \<lparr>tag_match = (\<lambda>t p. t \<in> set (map t_slug (p_tags p))),
                 text_match = (\<lambda>q p. q = p_title p)\<rparr>"

section \<open>Helper lemmas\<close>

subsection \<open>Authentication and the post routes\<close>

lemma get_current_user_id_bad_token:
  "jwt_decode token = None \<Longrightarrow>
   get_current_user_id UUID jwt_decode token =
     Inl (HTTPException 401 (Text ''Invalid authentication credentials''))"
  by (simp add: get_current_user_id_def)

lemma get_current_user_id_no_sub:
  "jwt_decode token = Some payload \<Longrightarrow> sub payload = None \<Longrightarrow>
   get_current_user_id UUID jwt_decode token =
     Inl (HTTPException 401 (Text ''Invalid authentication credentials''))"
  by (simp add: get_current_user_id_def)

lemma get_current_user_id_accepts:
  "get_current_user_id UUID jwt_decode token = Inr u \<Longrightarrow>
   \<exists>payload s. jwt_decode token = Some payload \<and> sub payload = Some s \<and> UUID s = Some u"
  by (auto simp add: get_current_user_id_def split: option.splits)

lemma get_current_user_id_accepted:
  "jwt_decode token = Some payload \<Longrightarrow> sub payload = Some s \<Longrightarrow> UUID s = Some u \<Longrightarrow>
   get_current_user_id UUID jwt_decode token = Inr u"
  by (simp add: get_current_user_id_def)

lemma routes_refuse:
  "get_current_user_id UUID jwt_decode token = Inl err \<Longrightarrow>
   update_existing_post UUID jwt_decode e db ident post_data token = (Inl err, db) \<and>
   delete_existing_post UUID jwt_decode db ident token = (Inl err, db) \<and>
   create_new_post UUID jwt_decode create_post db body token = (Inl err, db)"
  by (simp add: update_existing_post_def delete_existing_post_def create_new_post_def)

lemma list_all_posts_frame:
  "snd (list_all_posts UUID m db pg lmt status author tg search) = db"
  by (simp add: list_all_posts_def list_posts_def Let_def split: option.splits)

lemma get_post_absent:
  "get_post_by_slug db slug = None \<Longrightarrow>
   get_post db slug = (Inl (HTTPException 404 (Text ''Post not found'')), db)"
  by (simp add: get_post_def)

lemma find_map_same:
  "(\<And>x. P (f x) = P x) \<Longrightarrow> find P (map f xs) = map_option f (find P xs)"
  by (induction xs) auto

lemma get_post_by_slug_incremented:
  "get_post_by_slug (increment_view_count db i) slug =
     map_option (\<lambda>p. if p_id p = i then p\<lparr>p_view_count := p_view_count p + 1\<rparr> else p)
       (get_post_by_slug db slug)"
  unfolding get_post_by_slug_def increment_view_count_def
  by (simp add: find_map_same)

lemma update_comment_refuses:
  "valid_CommentUpdate body \<Longrightarrow>
   (get_by_id db i = None \<longrightarrow>
      update_comment e db i body cu =
        (Inl (HTTPException 404 (Text ''Comment not found'')), db)) \<and>
   (\<forall>c. get_by_id db i = Some c \<and> uuid_str (author_id c) \<noteq> user_id cu \<longrightarrow>
      update_comment e db i body cu =
        (Inl (HTTPException 403 (Text ''Not authorized to update this comment'')), db))"
  by (simp add: update_comment_def)

lemma delete_comment_cases:
  "UUID (user_id cu) = Some a \<Longrightarrow>
   (get_by_id db i = None \<longrightarrow>
      delete_comment UUID e db i cu =
        (Inl (HTTPException 404 (Text ''Comment not found or not authorized'')), db)) \<and>
   (\<forall>c. get_by_id db i = Some c \<and> author_id c \<noteq> a \<longrightarrow>
      delete_comment UUID e db i cu =
        (Inl (HTTPException 404 (Text ''Comment not found or not authorized'')), db)) \<and>
   (\<forall>c. get_by_id db i = Some c \<and> author_id c = a \<longrightarrow>
      fst (delete_comment UUID e db i cu) = Inr (api_response [(''deleted'', True)]))"
  by (simp add: delete_comment_def service_delete_def)

lemma post_routes_refuse_non_author:
  "get_current_user_id UUID jwt_decode token = Inr uid \<Longrightarrow>
   (find_post UUID db ident = None \<longrightarrow>
      update_existing_post UUID jwt_decode e db ident post_data token =
        (Inl (HTTPException 404 (Text ''Post not found or you don't have permission'')), db) \<and>
      delete_existing_post UUID jwt_decode db ident token =
        (Inl (HTTPException 404 (Text ''Post not found'')), db)) \<and>
   (\<forall>p. find_post UUID db ident = Some p \<and> p_author_id p \<noteq> uid \<longrightarrow>
      update_existing_post UUID jwt_decode e db ident post_data token =
        (Inl (HTTPException 403 (Text ''You don't have permission to update this post'')), db) \<and>
      delete_existing_post UUID jwt_decode db ident token =
        (Inl (HTTPException 403 (Text ''You don't have permission to delete this post'')), db))"
  by (simp add: update_existing_post_def delete_existing_post_def)

subsection \<open>The reply tree\<close>

lemma those_map_Some:
  "those (map f xs) = Some ys \<Longrightarrow> list_all2 (\<lambda>x y. f x = Some y) xs ys"
  by (induction xs arbitrary: ys) (auto split: option.splits)

lemma those_map_None:
  "those (map f xs) = None \<Longrightarrow> \<exists>x \<in> set xs. f x = None"
  by (induction xs) (auto split: option.splits)

lemma model_validate_columns:
  "r_id (model_validate c) = cid c" "r_created_at (model_validate c) = created_at c"
  by (simp_all add: model_validate_def compute_edited_flag_def Let_def split: option.splits)

lemma get_replies_set:
  "x \<in> set (get_replies db i) \<longleftrightarrow> x \<in> set db \<and> parent_id x = Some i \<and> \<not> is_deleted x"
  by (auto simp add: get_replies_def)

lemma get_replies_mset:
  "mset (get_replies db i) =
     filter_mset (\<lambda>c. parent_id c = Some i \<and> \<not> is_deleted c) (mset db)"
  by (simp add: get_replies_def)

lemma get_replies_sorted:
  "sorted (map (\<lambda>c. dt_key (created_at c)) (get_replies db i))"
  by (simp add: get_replies_def)

lemma build_comment_tree_sound:
  "build_comment_tree n db c = Some t \<Longrightarrow> node t = model_validate c \<and> tree_ok db t"
proof (induction n arbitrary: c t)
  case 0
  then show ?case by simp
next
  case (Suc n)
  from Suc.prems obtain rs where
    rs: "those (map (build_comment_tree n db) (get_replies db (cid c))) = Some rs"
    and t: "t = CommentWithReplies (model_validate c) rs"
    by auto
  from those_map_Some [OF rs]
  have all2: "list_all2 (\<lambda>x y. build_comment_tree n db x = Some y) (get_replies db (cid c)) rs" .
  then have all2': "list_all2 (\<lambda>x y. node y = model_validate x \<and> tree_ok db y)
      (get_replies db (cid c)) rs"
    by (rule list_all2_mono) (use Suc.IH in blast)
  then have fs: "map node rs = map model_validate (get_replies db (cid c))"
    by (induction rule: list_all2_induct) auto
  from all2' have oks: "\<forall>r \<in> set rs. tree_ok db r"
    by (induction rule: list_all2_induct) auto
  have m: "mset (map node rs) = image_mset model_validate
          (filter_mset (\<lambda>x. parent_id x = Some (cid c) \<and> \<not> is_deleted x) (mset db))"
    unfolding fs by (simp add: get_replies_mset [symmetric])
  have "map (\<lambda>r. dt_key (r_created_at (node r))) rs =
        map (\<lambda>x. dt_key (r_created_at x)) (map node rs)" by simp
  also have "\<dots> = map (\<lambda>x. dt_key (created_at x)) (get_replies db (cid c))"
    unfolding fs by (simp add: model_validate_columns)
  finally have s: "sorted (map (\<lambda>r. dt_key (r_created_at (node r))) rs)"
    by (simp add: get_replies_sorted)
  show ?case unfolding t using m s oks by (simp add: model_validate_columns)
qed

lemma build_comment_tree_returns:
  assumes rk: "\<forall>r \<in> set db. \<not> is_deleted r \<longrightarrow>
                 (\<forall>p. parent_id r = Some p \<longrightarrow> rk (cid r) < rk p)"
  shows "rk (cid c) < n \<Longrightarrow> build_comment_tree n db c \<noteq> None"
proof (induction n arbitrary: c)
  case 0
  then show ?case by simp
next
  case (Suc n)
  have "those (map (build_comment_tree n db) (get_replies db (cid c))) \<noteq> None"
  proof
    assume "those (map (build_comment_tree n db) (get_replies db (cid c))) = None"
    from those_map_None [OF this] obtain x where
      x: "x \<in> set (get_replies db (cid c))" and none: "build_comment_tree n db x = None"
      by blast
    from x have "x \<in> set db" "parent_id x = Some (cid c)" "\<not> is_deleted x"
      by (simp_all add: get_replies_set)
    with rk have "rk (cid x) < rk (cid c)" by blast
    with Suc.prems have "rk (cid x) < n" by simp
    from Suc.IH [OF this] none show False by contradiction
  qed
  then show ?case by auto
qed

lemma build_comment_tree_mono:
  "build_comment_tree n db c = Some t \<Longrightarrow> build_comment_tree (n + k) db c = Some t"
proof (induction n arbitrary: c t)
  case 0
  then show ?case by simp
next
  case (Suc n)
  from Suc.prems obtain rs where
    rs: "those (map (build_comment_tree n db) (get_replies db (cid c))) = Some rs"
    and t: "t = CommentWithReplies (model_validate c) rs"
    by auto
  have eq: "map (build_comment_tree (n + k) db) (get_replies db (cid c)) =
        map (build_comment_tree n db) (get_replies db (cid c))"
  proof (rule map_cong [OF refl])
    fix x assume "x \<in> set (get_replies db (cid c))"
    with those_map_Some [OF rs] obtain y where "build_comment_tree n db x = Some y"
      by (auto simp add: list_all2_conv_all_nth in_set_conv_nth)
    with Suc.IH show "build_comment_tree (n + k) db x = build_comment_tree n db x" by simp
  qed
  have "those (map (build_comment_tree (n + k) db) (get_replies db (cid c))) = Some rs"
    unfolding eq by (rule rs)
  with t show ?case by simp
qed

lemma get_by_id_Some: "get_by_id db i = Some c \<Longrightarrow> cid c = i \<and> c \<in> set db"
  by (auto simp add: get_by_id_def find_Some_iff)

lemma get_by_id_None: "get_by_id db i = None \<longleftrightarrow> (\<forall>c \<in> set db. cid c \<noteq> i)"
  by (auto simp add: get_by_id_def find_None_iff)

subsection \<open>Pages\<close>



subsection \<open>Creating a comment\<close>

lemma service_create_stores:
  "cc_post_id b = Some p \<Longrightarrow>
   \<exists>c. service_create e db b a = Inr (c, db @ [c]) \<and> author_id c = a \<and> post_id c = p"
  by (simp add: service_create_def Let_def)

lemma service_create_cases:
  "service_create e db b a = Inl IntegrityError \<or>
   (\<exists>c p. service_create e db b a = Inr (c, db @ [c]) \<and> author_id c = a \<and>
      cc_post_id b = Some p \<and> post_id c = p)"
  by (cases "cc_post_id b") (simp_all add: service_create_def Let_def)

lemma model_validate_owner:
  "r_author_id (model_validate c) = author_id c" "r_post_id (model_validate c) = post_id c"
  by (simp_all add: model_validate_def compute_edited_flag_def Let_def split: option.splits)

lemma create_comment_success:
  assumes "create_comment UUID e db body cu = (Inr resp, db')"
  shows "\<exists>c. db' = db @ [c] \<and> resp = api_response (model_validate c) \<and>
            UUID (user_id cu) = Some (author_id c) \<and> cc_post_id body = Some (post_id c)"
proof (cases "UUID (user_id cu)")
  case None
  with assms show ?thesis by (simp add: create_comment_def split: if_splits)
next
  case (Some a)
  from service_create_cases [of e db body a] show ?thesis
  proof
    assume "service_create e db body a = Inl IntegrityError"
    with assms Some show ?thesis by (simp add: create_comment_def split: if_splits)
  next
    assume "\<exists>c p. service_create e db body a = Inr (c, db @ [c]) \<and> author_id c = a \<and>
      cc_post_id body = Some p \<and> post_id c = p"
    then obtain c where c: "service_create e db body a = Inr (c, db @ [c])" "author_id c = a"
      "cc_post_id body = Some (post_id c)"
      by blast
    with assms Some have "db' = db @ [c] \<and> resp = api_response (model_validate c)"
      by (simp add: create_comment_def split: if_splits)
    with c Some show ?thesis by blast
  qed
qed

lemma create_comment_succeeds:
  assumes "valid_CommentCreate body" "cc_post_id body = Some p" "UUID (user_id cu) = Some a"
  shows "\<exists>c. create_comment UUID e db body cu = (Inr (api_response (model_validate c)), db @ [c]) \<and>
            author_id c = a"
proof -
  from service_create_stores [OF assms(2), of e db a] obtain c where
    c: "service_create e db body a = Inr (c, db @ [c])" "author_id c = a" by blast
  with assms have "create_comment UUID e db body cu =
      (Inr (api_response (model_validate c)), db @ [c])"
    by (simp add: create_comment_def)
  with c show ?thesis by blast
qed

lemma create_comment_by_post_eq:
  "create_comment_by_post UUID e db p body cu = create_comment UUID e db (body\<lparr>cc_post_id := Some p\<rparr>) cu"
  by (simp add: create_comment_by_post_def create_comment_def valid_CommentCreate_def Let_def)

lemma data_api_response: "data (api_response d) = Some d"
  by (simp add: api_response_def)

subsection \<open>Reading a post, listing pages\<close>

lemma get_post_present:
  assumes "get_post_by_slug db slug = Some p"
  shows "\<exists>resp. get_post db slug = (Inr resp, increment_view_count db (p_id p)) \<and>
           map_option d_view_count (ps_data resp) = Some (p_view_count p + 1)"
  using assms by (simp add: get_post_def Let_def)

lemma increment_view_count_rows:
  "posts (increment_view_count db i) =
     map (\<lambda>q. if p_id q = i then q\<lparr>p_view_count := p_view_count q + 1\<rparr> else q) (posts db) \<and>
   profiles (increment_view_count db i) = profiles db"
  by (simp add: increment_view_count_def)






subsection \<open>The example data, evaluated\<close>

lemma ex_user_UUID:
  "ex_UUID (user_id (ex_user 5)) = Some 5" "ex_UUID (user_id (ex_user 7)) = Some 7"
  by code_simp+

lemma ex_sub_UUID: "ex_UUID ''00000000-0000-0000-0000-000000000005'' = Some 5"
  by code_simp

lemma ex_uuid_str: "uuid_str 5 \<noteq> user_id (ex_user 7)" "uuid_str 5 = user_id (ex_user 5)"
  by code_simp+

lemma ex_get_by_id: "get_by_id ex_thread 1 = Some (ex_comment 1 None 5 False 8)"
  "get_by_id ex_thread 99 = None"
  by (simp_all add: get_by_id_def ex_thread_def ex_comment_def)

lemma ex_get_current_user_id: "get_current_user_id ex_UUID ex_decode ''good'' = Inr 5"
  by (simp add: get_current_user_id_def ex_decode_def ex_sub_UUID)

lemma ex_not_uuid:
  "ex_UUID ''second'' = None" "ex_UUID ''third'' = None" "ex_UUID ''first'' = None"
  by code_simp+

lemma ex_find_post: "find_post ex_UUID ex_posts ''second'' = Some (ex_post 2 6 ''second'' 7)"
  "find_post ex_UUID ex_posts ''third'' = None"
  by (simp_all add: find_post_def ex_not_uuid get_post_by_slug_def ex_posts_def ex_post_def)

lemma ex_get_post_by_slug:
  "get_post_by_slug ex_posts ''first'' = Some (ex_post 1 5 ''first'' 41)"
  "get_post_by_slug ex_posts ''third'' = None"
  by (simp_all add: get_post_by_slug_def ex_posts_def ex_post_def)



section \<open>The reply tree of a comment\<close>

lemma tree_ok_childless:
  assumes "tree_ok db t" and "node t = model_validate c"
    and "\<forall>r \<in> set db. parent_id r = Some (cid c) \<longrightarrow> is_deleted r"
  shows "replies t = []"
proof (cases t)
  case (CommentWithReplies x rs)
  with assms(2) have x: "r_id x = cid c" by (simp add: model_validate_columns)
  have "filter_mset (\<lambda>r. parent_id r = Some (cid c) \<and> \<not> is_deleted r) (mset db) = {#}"
    using assms(3) by auto
  with assms(1) CommentWithReplies x have "mset (map node rs) = {#}" by simp
  then have "rs = []" by simp
  with CommentWithReplies show ?thesis by simp
qed

lemma get_comment_absent:
  "get_by_id db i = None \<Longrightarrow>
   get_comment n db i b = Some (Inl (HTTPException 404 (Text ''Comment not found'')), db)"
  by (simp add: get_comment_def)

lemma get_comment_tree:
  "get_by_id db i = Some c \<Longrightarrow> build_comment_tree n db c = Some t \<Longrightarrow>
   get_comment n db i True = Some (Inr (api_response t), db)"
  by (simp add: get_comment_def)

lemma ex_rank_thread:
  "\<forall>r \<in> set ex_thread. \<not> is_deleted r \<longrightarrow>
     (\<forall>p. parent_id r = Some p \<longrightarrow> ex_rank (cid r) < ex_rank p)"
  by (simp add: ex_thread_def ex_comment_def ex_rank_def)

lemma ex_get_replies:
  "get_replies ex_thread 1 = [ex_comment 3 (Some 1) 5 False 10, ex_comment 2 (Some 1) 6 False 11]"
  "get_replies ex_thread 3 = [ex_comment 7 (Some 3) 6 False 12]"
  "get_replies ex_thread 2 = []"
  "get_replies ex_thread 7 = []"
  by (simp_all add: get_replies_def ex_thread_def ex_comment_def t_at_def dt_key_def)

lemma build_comment_tree_step:
  "get_replies db (cid c) = rs \<Longrightarrow> those (map (build_comment_tree n db) rs) = Some ts \<Longrightarrow>
   build_comment_tree (Suc n) db c = Some (CommentWithReplies (model_validate c) ts)"
  by simp

lemma ex_build_comment_tree:
  "build_comment_tree 3 ex_thread (ex_comment 1 None 5 False 8) =
     Some (CommentWithReplies (model_validate (ex_comment 1 None 5 False 8))
       [CommentWithReplies (model_validate (ex_comment 3 (Some 1) 5 False 10))
          [CommentWithReplies (model_validate (ex_comment 7 (Some 3) 6 False 12)) []],
        CommentWithReplies (model_validate (ex_comment 2 (Some 1) 6 False 11)) []])"
proof -
  have c: "cid (ex_comment i p a d h) = i" for i p a d h by (simp add: ex_comment_def)
  have r1: "get_replies ex_thread (cid (ex_comment 1 None 5 False 8)) =
      [ex_comment 3 (Some 1) 5 False 10, ex_comment 2 (Some 1) 6 False 11]"
    and r3: "get_replies ex_thread (cid (ex_comment 3 (Some 1) 5 False 10)) =
      [ex_comment 7 (Some 3) 6 False 12]"
    and r2: "get_replies ex_thread (cid (ex_comment 2 (Some 1) 6 False 11)) = []"
    and r7: "get_replies ex_thread (cid (ex_comment 7 (Some 3) 6 False 12)) = []"
    by (simp_all only: c ex_get_replies)
  have b7: "build_comment_tree (Suc n) ex_thread (ex_comment 7 (Some 3) 6 False 12) =
      Some (CommentWithReplies (model_validate (ex_comment 7 (Some 3) 6 False 12)) [])" for n
    by (rule build_comment_tree_step [OF r7]) (simp only: list.map those.simps)
  have b2: "build_comment_tree (Suc n) ex_thread (ex_comment 2 (Some 1) 6 False 11) =
      Some (CommentWithReplies (model_validate (ex_comment 2 (Some 1) 6 False 11)) [])" for n
    by (rule build_comment_tree_step [OF r2]) (simp only: list.map those.simps)
  have b3: "build_comment_tree (Suc (Suc n)) ex_thread (ex_comment 3 (Some 1) 5 False 10) =
      Some (CommentWithReplies (model_validate (ex_comment 3 (Some 1) 5 False 10))
          [CommentWithReplies (model_validate (ex_comment 7 (Some 3) 6 False 12)) []])" for n
    by (rule build_comment_tree_step [OF r3])
      (simp only: list.map those.simps b7 option.case option.map)
  have b1: "build_comment_tree (Suc (Suc (Suc 0))) ex_thread (ex_comment 1 None 5 False 8) =
     Some (CommentWithReplies (model_validate (ex_comment 1 None 5 False 8))
       [CommentWithReplies (model_validate (ex_comment 3 (Some 1) 5 False 10))
          [CommentWithReplies (model_validate (ex_comment 7 (Some 3) 6 False 12)) []],
        CommentWithReplies (model_validate (ex_comment 2 (Some 1) 6 False 11)) []])"
    by (rule build_comment_tree_step [OF r1])
      (simp only: list.map those.simps b2 b3 option.case option.map)
  then show ?thesis by (simp only: numeral_3_eq_3 [symmetric])
qed

text \<open>On the table whose only comment is its own parent, the recursion finds the comment
  among its own replies at every depth: no bound on the depth is enough for a tree.\<close>

lemma ex_cycle_never_returns: "build_comment_tree n ex_cycle (ex_comment 1 (Some 1) 5 False 8) = None"
proof (induction n)
  case 0
  then show ?case by simp
next
  case (Suc n)
  have "get_replies ex_cycle 1 = [ex_comment 1 (Some 1) 5 False 8]"
    by (simp add: get_replies_def ex_cycle_def ex_comment_def)
  moreover have "cid (ex_comment 1 (Some 1) 5 False 8) = 1" by (simp add: ex_comment_def)
  ultimately show ?case using Suc by simp
qed

text \<open>
  Claim C1. \<^verbatim>\<open>GET /comments/{id}\<close> with \<open>include_replies\<close>: when no comment has the id
  the answer is 404, \<open>Comment not found\<close>. When a comment has it, the recursion ends
  and the answer is one tree, the same at every depth that is enough: its root carries
  the comment's fields, and at every node the children are exactly the comments that are
  not soft-deleted and have the node's id as \<open>parent_id\<close>, in ascending order of
  \<open>created_at\<close>; a comment whose replies are all soft-deleted, or that has none, has
  an empty sequence of replies. The table is one whose \<open>parent_id\<close> references form no
  cycle among the comments that are not soft-deleted: a rank \<open>rk\<close> falls from every parent
  to its replies. The specification leaves open what a table with a cycle answers.
\<close>

theorem get_comment_returns_reply_tree:
  assumes rk: "\<forall>r \<in> set db. \<not> is_deleted r \<longrightarrow>
                 (\<forall>p. parent_id r = Some p \<longrightarrow> rk (cid r) < rk p)"
  shows "(get_by_id db i = None \<longrightarrow>
            (\<forall>n. get_comment n db i True =
                   Some (Inl (HTTPException 404 (Text ''Comment not found'')), db))) \<and>
         (\<forall>c. get_by_id db i = Some c \<longrightarrow>
            (\<exists>t. (\<forall>n. rk i < n \<longrightarrow> get_comment n db i True = Some (Inr (api_response t), db)) \<and>
                 node t = model_validate c \<and> tree_ok db t \<and>
                 ((\<forall>r \<in> set db. parent_id r = Some i \<longrightarrow> is_deleted r) \<longrightarrow>
                    replies t = [])))"
proof (intro conjI allI impI)
  fix n assume "get_by_id db i = None"
  then show "get_comment n db i True =
      Some (Inl (HTTPException 404 (Text ''Comment not found'')), db)"
    by (rule get_comment_absent)
next
  fix c assume c: "get_by_id db i = Some c"
  from get_by_id_Some [OF c] have i: "cid c = i" by (rule conjunct1)
  then have "rk (cid c) < Suc (rk i)" by simp
  from build_comment_tree_returns [OF rk this]
  obtain t where t: "build_comment_tree (Suc (rk i)) db c = Some t"
    by (cases "build_comment_tree (Suc (rk i)) db c") simp_all
  from build_comment_tree_sound [OF t]
  have nd: "node t = model_validate c" and ok: "tree_ok db t"
    by (rule conjunct1, rule conjunct2)
  have every: "\<forall>n. rk i < n \<longrightarrow> get_comment n db i True = Some (Inr (api_response t), db)"
  proof (intro allI impI)
    fix n assume "rk i < n"
    then obtain k where n: "n = Suc (rk i) + k"
      using less_iff_Suc_add by auto
    from build_comment_tree_mono [OF t, of k] n
    have "build_comment_tree n db c = Some t" by simp
    from get_comment_tree [OF c this]
    show "get_comment n db i True = Some (Inr (api_response t), db)" .
  qed
  have leaf: "(\<forall>r \<in> set db. parent_id r = Some i \<longrightarrow> is_deleted r) \<longrightarrow> replies t = []"
  proof
    assume "\<forall>r \<in> set db. parent_id r = Some i \<longrightarrow> is_deleted r"
    with i have "\<forall>r \<in> set db. parent_id r = Some (cid c) \<longrightarrow> is_deleted r" by simp
    from tree_ok_childless [OF ok nd this] show "replies t = []" .
  qed
  from every nd ok leaf
  show "\<exists>t. (\<forall>n. rk i < n \<longrightarrow> get_comment n db i True = Some (Inr (api_response t), db)) \<and>
                 node t = model_validate c \<and> tree_ok db t \<and>
                 ((\<forall>r \<in> set db. parent_id r = Some i \<longrightarrow> is_deleted r) \<longrightarrow>
                    replies t = [])"
    by (intro exI conjI)
qed

theorem get_comment_returns_reply_tree_witness:
  "get_comment 3 ex_thread 1 True =
     Some (Inr (api_response
       (CommentWithReplies (model_validate (ex_comment 1 None 5 False 8))
         [CommentWithReplies (model_validate (ex_comment 3 (Some 1) 5 False 10))
            [CommentWithReplies (model_validate (ex_comment 7 (Some 3) 6 False 12)) []],
          CommentWithReplies (model_validate (ex_comment 2 (Some 1) 6 False 11)) []])),
       ex_thread) \<and>
   tree_ok ex_thread
     (CommentWithReplies (model_validate (ex_comment 1 None 5 False 8))
         [CommentWithReplies (model_validate (ex_comment 3 (Some 1) 5 False 10))
            [CommentWithReplies (model_validate (ex_comment 7 (Some 3) 6 False 12)) []],
          CommentWithReplies (model_validate (ex_comment 2 (Some 1) 6 False 11)) []]) \<and>
   get_comment 3 ex_thread 99 True =
     Some (Inl (HTTPException 404 (Text ''Comment not found'')), ex_thread)"
proof -
  let ?t = "CommentWithReplies (model_validate (ex_comment 1 None 5 False 8))
         [CommentWithReplies (model_validate (ex_comment 3 (Some 1) 5 False 10))
            [CommentWithReplies (model_validate (ex_comment 7 (Some 3) 6 False 12)) []],
          CommentWithReplies (model_validate (ex_comment 2 (Some 1) 6 False 11)) []]"
  have g: "get_comment 3 ex_thread 1 True = Some (Inr (api_response ?t), ex_thread)"
    by (rule get_comment_tree [OF ex_get_by_id(1) ex_build_comment_tree])
  have r: "ex_rank 1 < 3" by (simp add: ex_rank_def)
  note t = get_comment_returns_reply_tree [where rk = ex_rank and db = ex_thread, OF ex_rank_thread]
  from t [where i = 1, THEN conjunct2, THEN spec, THEN mp, OF ex_get_by_id(1)]
  obtain t' where a: "\<forall>n. ex_rank 1 < n \<longrightarrow>
        get_comment n ex_thread 1 True = Some (Inr (api_response t'), ex_thread)"
    and ok: "tree_ok ex_thread t'"
    by (elim exE conjE)
  from a [THEN spec, THEN mp, OF r] g have "api_response t' = api_response ?t" by simp
  then have "t' = ?t" by (simp add: api_response_def)
  with ok have ok': "tree_ok ex_thread ?t" by simp
  from t [where i = 99, THEN conjunct1, THEN mp, OF ex_get_by_id(2), THEN spec, of 3]
  have nf: "get_comment 3 ex_thread 99 True =
     Some (Inl (HTTPException 404 (Text ''Comment not found'')), ex_thread)" .
  from g ok' nf show ?thesis by (intro conjI)
qed


section \<open>The edited flag\<close>

lemma compute_edited_flag_edited:
  "edited (compute_edited_flag x) = (r_edited_at x \<noteq> None)"
  by (simp add: compute_edited_flag_def Let_def split: option.splits)

lemma compute_edited_flag_label:
  "r_edited_at x = Some d \<Longrightarrow>
   edited_at_formatted (compute_edited_flag x) = Some (''edited - '' @ strftime_edited d)"
  by (simp add: compute_edited_flag_def Let_def)

lemma model_validate_label:
  "edited_at_formatted (model_validate c) =
     map_option (\<lambda>d. ''edited - '' @ strftime_edited d) (edited_at c)"
  by (simp add: model_validate_def compute_edited_flag_def Let_def split: option.splits)

lemma model_validate_edited: "edited (model_validate c) = (edited_at c \<noteq> None)"
  by (simp add: model_validate_def compute_edited_flag_edited)

lemma of_char_digit_nth:
  "k < 10 \<Longrightarrow> (of_char (''0123456789'' ! k) :: nat) = 48 + k"
proof -
  assume "k < 10"
  then have "k = 0 \<or> k = 1 \<or> k = 2 \<or> k = 3 \<or> k = 4 \<or> k = 5 \<or> k = 6 \<or> k = 7 \<or> k = 8 \<or> k = 9"
    by arith
  then show ?thesis
    by (elim disjE) simp_all
qed

lemma of_char_digit_char: "(of_char (digit_char d) :: nat) = 48 + d mod 10"
  unfolding digit_char_def by (rule of_char_digit_nth) simp

lemma is_digit_digit_char: "is_digit (digit_char d)"
  by (simp add: is_digit_def of_char_digit_char)

lemma read_dec_pad2: "n < 100 \<Longrightarrow> read_dec (pad2 n) = Some n"
  by (simp add: read_dec_def pad2_def is_digit_digit_char of_char_digit_char)

lemma length_pad2: "length (pad2 n) = 2"
  by (simp add: pad2_def)

lemma dec_digits: "dec n \<noteq> [] \<and> list_all is_digit (dec n)"
proof (induction n rule: dec.induct)
  case (1 n)
  then show ?case by (simp add: dec.simps [of n] is_digit_digit_char)
qed

lemma dec_value: "foldl (\<lambda>n c. 10 * n + (of_char c - 48)) 0 (dec n) = n"
proof (induction n rule: dec.induct)
  case (1 n)
  show ?case
  proof (cases "n < 10")
    case True
    then show ?thesis by (subst dec.simps) (simp add: of_char_digit_char)
  next
    case False
    with 1 show ?thesis by (subst dec.simps) (simp add: of_char_digit_char)
  qed
qed

lemma read_dec_dec: "read_dec (dec n) = Some n"
  using dec_digits [of n] by (simp add: read_dec_def dec_value)

lemma length_dec4: "1000 \<le> n \<Longrightarrow> n \<le> 9999 \<Longrightarrow> length (dec n) = 4"
proof -
  assume a: "1000 \<le> n" "n \<le> 9999"
  then have b: "\<not> n < 10" "\<not> n div 10 < 10" "\<not> n div 100 < 10" "n div 1000 < 10"
    by arith+
  have e: "n div 100 div 10 = n div 1000" "n div 10 div 10 = n div 100"
    by (simp_all add: div_mult2_eq [symmetric])
  have "dec (n div 1000) = [digit_char (n div 1000)]"
    using b by (simp add: dec.simps [of "n div 1000"])
  moreover have "dec (n div 100) = dec (n div 1000) @ [digit_char (n div 100)]"
    using b by (simp add: dec.simps [of "n div 100"] e)
  moreover have "dec (n div 10) = dec (n div 100) @ [digit_char (n div 10)]"
    using b by (simp add: dec.simps [of "n div 10"] e)
  moreover have "dec n = dec (n div 10) @ [digit_char n]"
    using b by (simp add: dec.simps [of n])
  ultimately show ?thesis by simp
qed

lemma month_of_abbr_month_abbr:
  "1 \<le> m \<Longrightarrow> m \<le> 12 \<Longrightarrow> month_of_abbr (month_abbr m) = Some m"
proof -
  assume "1 \<le> m" "m \<le> 12"
  then have "m = 1 \<or> m = 2 \<or> m = 3 \<or> m = 4 \<or> m = 5 \<or> m = 6 \<or> m = 7 \<or> m = 8 \<or> m = 9 \<or>
      m = 10 \<or> m = 11 \<or> m = 12"
    by arith
  then show ?thesis
    by (elim disjE) (simp_all add: month_of_abbr_def month_abbr_def)
qed

lemma hour12_range: "h < 24 \<Longrightarrow> hour12 h < 100 \<and>
    hour12 h = (if h = 0 \<or> h = 12 then 12 else h mod 12)"
  by (auto simp add: hour12_def)

lemma am_pm_cases: "hour d < 12 \<and> am_pm (hour d) = ''AM'' \<or> 12 \<le> hour d \<and> am_pm (hour d) = ''PM''"
  by (simp add: am_pm_def)

lemma strftime_edited_is_label:
  assumes "valid_datetime d"
  shows "edited_label_spec d (''edited - '' @ strftime_edited d)"
proof -
  from assms have m: "1 \<le> month d" "month d \<le> 12" and dd: "day d < 100"
    and y: "year d < 1000 \<or> (1000 \<le> year d \<and> year d \<le> 9999)"
    and h: "hour d < 24" and mi: "minute d < 100"
    by (auto simp add: valid_datetime_def)
  have yl: "year d < 1000 \<or> length (dec (year d)) = 4"
    using y length_dec4 by blast
  have hh: "read_dec (pad2 (hour12 (hour d))) =
      Some (if hour d = 0 \<or> hour d = 12 then 12 else hour d mod 12)"
    using hour12_range [OF h] read_dec_pad2 [of "hour12 (hour d)"] by simp
  show ?thesis
    unfolding edited_label_spec_def strftime_edited_def
    apply (rule exI [of _ "month_abbr (month d)"])
    apply (rule exI [of _ "pad2 (day d)"])
    apply (rule exI [of _ "dec (year d)"])
    apply (rule exI [of _ "pad2 (hour12 (hour d))"])
    apply (rule exI [of _ "pad2 (minute d)"])
    apply (rule exI [of _ "am_pm (hour d)"])
    apply (intro conjI)
              apply simp
             apply (rule month_of_abbr_month_abbr [OF m])
            apply (rule length_pad2)
           apply (rule read_dec_pad2 [OF dd])
          apply (rule read_dec_dec)
         apply (rule yl)
        apply (rule length_pad2)
       apply (rule hh)
      apply (rule length_pad2)
     apply (rule read_dec_pad2 [OF mi])
    apply (rule am_pm_cases)
    done
qed


lemma dec_2024: "dec 2024 = ''2024''"
proof -
  have "dec 2 = ''2''" by (simp add: dec.simps [of 2] digit_char_def)
  moreover have "dec 20 = dec 2 @ ''0''" by (simp add: dec.simps [of 20] digit_char_def)
  moreover have "dec 202 = dec 20 @ ''2''" by (simp add: dec.simps [of 202] digit_char_def)
  moreover have "dec 2024 = dec 202 @ ''4''" by (simp add: dec.simps [of 2024] digit_char_def)
  ultimately show ?thesis by simp
qed

lemma dec_999: "dec 999 = ''999''"
proof -
  have "dec 9 = ''9''" by (simp add: dec.simps [of 9] digit_char_def)
  moreover have "dec 99 = dec 9 @ ''9''" by (simp add: dec.simps [of 99] digit_char_def)
  moreover have "dec 999 = dec 99 @ ''9''" by (simp add: dec.simps [of 999] digit_char_def)
  ultimately show ?thesis by simp
qed

lemma strftime_edited_example:
  "strftime_edited \<lparr>year = 2024, month = 1, day = 2, hour = 15, minute = 4, second = 5,
     microsecond = 0\<rparr> = ''Jan 02, 2024 03:04 PM''"
  by (simp add: strftime_edited_def month_abbr_def pad2_def dec_2024 digit_char_def
      hour12_def am_pm_def)

lemma strftime_edited_midnight:
  "strftime_edited \<lparr>year = 999, month = 12, day = 31, hour = 0, minute = 59, second = 0,
     microsecond = 0\<rparr> = ''Dec 31, 999 12:59 AM''"
  by (simp add: strftime_edited_def month_abbr_def pad2_def dec_999 digit_char_def
      hour12_def am_pm_def)

text \<open>
  Claim C4. In every comment response the edited flag is true exactly when
  \<open>edited_at\<close> is set, whatever the flag and the label held before the validator ran.
  When it is set, the label is the text that the format
  \<^verbatim>\<open>edited - <Mon DD, YYYY hh:mm AM/PM>\<close> gives for that timestamp: it reads back as
  the month, the day, the year, the hour of the 12-hour clock, the minute and the half of
  the day of \<open>edited_at\<close>. It is a function of \<open>edited_at\<close> alone: two responses with the
  same \<open>edited_at\<close> carry the same label, whatever their other fields and whatever label
  they held before. It is not stored: a response built from a row has no label when the
  row has no \<open>edited_at\<close>, and otherwise the label of the row's \<open>edited_at\<close>.
\<close>

theorem edited_label_from_edited_at:
  "edited (compute_edited_flag x) = (r_edited_at x \<noteq> None) \<and>
   (\<forall>d. r_edited_at x = Some d \<longrightarrow> valid_datetime d \<longrightarrow>
      (\<exists>s. edited_at_formatted (compute_edited_flag x) = Some s \<and> edited_label_spec d s)) \<and>
   (\<forall>y :: CommentInDB. r_edited_at x \<noteq> None \<longrightarrow> r_edited_at y = r_edited_at x \<longrightarrow>
      edited_at_formatted (compute_edited_flag y) =
      edited_at_formatted (compute_edited_flag x)) \<and>
   edited (model_validate c) = (edited_at c \<noteq> None) \<and>
   (edited_at c = None \<longrightarrow> edited_at_formatted (model_validate c) = None) \<and>
   (\<forall>d. edited_at c = Some d \<longrightarrow> valid_datetime d \<longrightarrow>
      (\<exists>s. edited_at_formatted (model_validate c) = Some s \<and> edited_label_spec d s)) \<and>
   (\<forall>c' :: comment. edited_at c' = edited_at c \<longrightarrow>
      edited_at_formatted (model_validate c') = edited_at_formatted (model_validate c))"
proof (intro conjI allI impI)
  show "edited (compute_edited_flag x) = (r_edited_at x \<noteq> None)"
    by (rule compute_edited_flag_edited)
next
  fix d assume a: "r_edited_at x = Some d" and v: "valid_datetime d"
  from compute_edited_flag_label [OF a] strftime_edited_is_label [OF v]
  show "\<exists>s. edited_at_formatted (compute_edited_flag x) = Some s \<and> edited_label_spec d s"
    by (intro exI conjI)
next
  fix y :: CommentInDB
  assume "r_edited_at x \<noteq> None" and e: "r_edited_at y = r_edited_at x"
  then obtain d where a: "r_edited_at x = Some d" by (cases "r_edited_at x") simp_all
  with e have b: "r_edited_at y = Some d" by simp
  show "edited_at_formatted (compute_edited_flag y) =
      edited_at_formatted (compute_edited_flag x)"
    by (simp only: compute_edited_flag_label [OF a] compute_edited_flag_label [OF b])
next
  show "edited (model_validate c) = (edited_at c \<noteq> None)"
    by (rule model_validate_edited)
next
  assume "edited_at c = None"
  then show "edited_at_formatted (model_validate c) = None"
    by (simp add: model_validate_label)
next
  fix d assume a: "edited_at c = Some d" and v: "valid_datetime d"
  have "edited_at_formatted (model_validate c) = Some (''edited - '' @ strftime_edited d)"
    by (simp only: model_validate_label a option.map)
  with strftime_edited_is_label [OF v]
  show "\<exists>s. edited_at_formatted (model_validate c) = Some s \<and> edited_label_spec d s"
    by (intro exI conjI)
next
  fix c' :: comment
  assume "edited_at c' = edited_at c"
  then show "edited_at_formatted (model_validate c') = edited_at_formatted (model_validate c)"
    by (simp only: model_validate_label)
qed

theorem edited_label_from_edited_at_witness:
  "edited (compute_edited_flag
     \<lparr>r_id = 1, r_post_id = 2, r_author_id = 3, r_parent_id = None, r_content = ''hi'',
      r_is_deleted = False,
      r_created_at = \<lparr>year = 2024, month = 1, day = 1, hour = 9, minute = 0, second = 0,
        microsecond = 0\<rparr>,
      r_updated_at = \<lparr>year = 2024, month = 1, day = 2, hour = 15, minute = 4, second = 5,
        microsecond = 0\<rparr>,
      r_edited_at = Some \<lparr>year = 2024, month = 1, day = 2, hour = 15, minute = 4,
        second = 5, microsecond = 0\<rparr>,
      edited = False, edited_at_formatted = Some ''stale''\<rparr>) \<and>
   edited_at_formatted (compute_edited_flag
     \<lparr>r_id = 1, r_post_id = 2, r_author_id = 3, r_parent_id = None, r_content = ''hi'',
      r_is_deleted = False,
      r_created_at = \<lparr>year = 2024, month = 1, day = 1, hour = 9, minute = 0, second = 0,
        microsecond = 0\<rparr>,
      r_updated_at = \<lparr>year = 2024, month = 1, day = 2, hour = 15, minute = 4, second = 5,
        microsecond = 0\<rparr>,
      r_edited_at = Some \<lparr>year = 2024, month = 1, day = 2, hour = 15, minute = 4,
        second = 5, microsecond = 0\<rparr>,
      edited = False, edited_at_formatted = Some ''stale''\<rparr>)
     = Some ''edited - Jan 02, 2024 03:04 PM'' \<and>
   edited_label_spec
     \<lparr>year = 2024, month = 1, day = 2, hour = 15, minute = 4, second = 5, microsecond = 0\<rparr>
     ''edited - Jan 02, 2024 03:04 PM''"
proof -
  let ?d = "\<lparr>year = 2024, month = 1, day = 2, hour = 15, minute = 4, second = 5,
        microsecond = 0\<rparr>"
  let ?x = "\<lparr>r_id = 1, r_post_id = 2, r_author_id = 3, r_parent_id = None,
      r_content = ''hi'', r_is_deleted = False,
      r_created_at = \<lparr>year = 2024, month = 1, day = 1, hour = 9, minute = 0, second = 0,
        microsecond = 0\<rparr>,
      r_updated_at = ?d, r_edited_at = Some ?d,
      edited = False, edited_at_formatted = Some ''stale''\<rparr>"
  have a: "r_edited_at ?x = Some ?d" by simp
  have v: "valid_datetime ?d" by (simp add: valid_datetime_def)
  have l: "edited_at_formatted (compute_edited_flag ?x) = Some ''edited - Jan 02, 2024 03:04 PM''"
    by (simp only: compute_edited_flag_label [OF a] strftime_edited_example append.simps)
  note t = edited_label_from_edited_at [of ?x]
  from t [THEN conjunct1] a have e: "edited (compute_edited_flag ?x)"
    by simp
  from t [THEN conjunct2, THEN conjunct1, THEN spec, THEN mp, THEN mp, OF a v]
  obtain s where s: "edited_at_formatted (compute_edited_flag ?x) = Some s"
    and sl: "edited_label_spec ?d s"
    by (elim exE conjE)
  from s l have "s = ''edited - Jan 02, 2024 03:04 PM''" by simp
  with sl have "edited_label_spec ?d ''edited - Jan 02, 2024 03:04 PM''" by simp
  with e l show ?thesis by (intro conjI)
qed

section \<open>Ownership\<close>

text \<open>
  Claim C2. A caller who is not the author cannot change a record. Updating a comment with
  a well-formed body ends with 404 when no comment has the id and with 403 when the text
  of the comment's \<open>author_id\<close> is not the caller's id; updating or deleting a post as an
  authenticated caller ends with 404 when no post has the identifier and with 403 when
  the post's \<open>author_id\<close> is not the caller's; deleting a comment that is not the
  caller's ends with 404. In each case the database is returned as it was.
\<close>

theorem non_author_cannot_mutate:
  "(valid_CommentUpdate body \<longrightarrow>
     (get_by_id db i = None \<longrightarrow>
        update_comment e db i body cu =
          (Inl (HTTPException 404 (Text ''Comment not found'')), db)) \<and>
     (\<forall>c. get_by_id db i = Some c \<and> uuid_str (author_id c) \<noteq> user_id cu \<longrightarrow>
        update_comment e db i body cu =
          (Inl (HTTPException 403 (Text ''Not authorized to update this comment'')), db))) \<and>
   (get_current_user_id UUID jwt_decode token = Inr uid \<longrightarrow>
     (find_post UUID pdb ident = None \<longrightarrow>
        update_existing_post UUID jwt_decode e pdb ident post_data token =
          (Inl (HTTPException 404 (Text ''Post not found or you don't have permission'')), pdb) \<and>
        delete_existing_post UUID jwt_decode pdb ident token =
          (Inl (HTTPException 404 (Text ''Post not found'')), pdb)) \<and>
     (\<forall>p. find_post UUID pdb ident = Some p \<and> p_author_id p \<noteq> uid \<longrightarrow>
        update_existing_post UUID jwt_decode e pdb ident post_data token =
          (Inl (HTTPException 403 (Text ''You don't have permission to update this post'')), pdb) \<and>
        delete_existing_post UUID jwt_decode pdb ident token =
          (Inl (HTTPException 403 (Text ''You don't have permission to delete this post'')), pdb))) \<and>
   (\<forall>a c. UUID (user_id cu) = Some a \<and> get_by_id db i = Some c \<and> author_id c \<noteq> a \<longrightarrow>
      delete_comment UUID e db i cu =
        (Inl (HTTPException 404 (Text ''Comment not found or not authorized'')), db))"
proof (intro conjI)
  show "valid_CommentUpdate body \<longrightarrow>
     (get_by_id db i = None \<longrightarrow>
        update_comment e db i body cu =
          (Inl (HTTPException 404 (Text ''Comment not found'')), db)) \<and>
     (\<forall>c. get_by_id db i = Some c \<and> uuid_str (author_id c) \<noteq> user_id cu \<longrightarrow>
        update_comment e db i body cu =
          (Inl (HTTPException 403 (Text ''Not authorized to update this comment'')), db))"
    by (rule impI) (rule update_comment_refuses)
  show "get_current_user_id UUID jwt_decode token = Inr uid \<longrightarrow>
     (find_post UUID pdb ident = None \<longrightarrow>
        update_existing_post UUID jwt_decode e pdb ident post_data token =
          (Inl (HTTPException 404 (Text ''Post not found or you don't have permission'')), pdb) \<and>
        delete_existing_post UUID jwt_decode pdb ident token =
          (Inl (HTTPException 404 (Text ''Post not found'')), pdb)) \<and>
     (\<forall>p. find_post UUID pdb ident = Some p \<and> p_author_id p \<noteq> uid \<longrightarrow>
        update_existing_post UUID jwt_decode e pdb ident post_data token =
          (Inl (HTTPException 403 (Text ''You don't have permission to update this post'')), pdb) \<and>
        delete_existing_post UUID jwt_decode pdb ident token =
          (Inl (HTTPException 403 (Text ''You don't have permission to delete this post'')), pdb))"
    by (rule impI) (rule post_routes_refuse_non_author)
  show "\<forall>a c. UUID (user_id cu) = Some a \<and> get_by_id db i = Some c \<and> author_id c \<noteq> a \<longrightarrow>
      delete_comment UUID e db i cu =
        (Inl (HTTPException 404 (Text ''Comment not found or not authorized'')), db)"
  proof (intro allI impI)
    fix a c
    assume h: "UUID (user_id cu) = Some a \<and> get_by_id db i = Some c \<and> author_id c \<noteq> a"
    then have u: "UUID (user_id cu) = Some a" and g: "get_by_id db i = Some c \<and> author_id c \<noteq> a"
      by simp_all
    from delete_comment_cases [where UUID = UUID and cu = cu and a = a, OF u, THEN conjunct2, THEN conjunct1, THEN spec, THEN mp, OF g]
    show "delete_comment UUID e db i cu =
        (Inl (HTTPException 404 (Text ''Comment not found or not authorized'')), db)" .
  qed
qed

theorem non_author_cannot_mutate_witness:
  "update_comment ex_env ex_thread 1 \<lparr>cu_content = Some ''new''\<rparr> (ex_user 7) =
     (Inl (HTTPException 403 (Text ''Not authorized to update this comment'')), ex_thread) \<and>
   update_existing_post ex_UUID ex_decode ex_env ex_posts ''second''
       \<lparr>pu_title = Some ''T'', pu_content = None, pu_summary = None, pu_status = None\<rparr>
       ''good'' =
     (Inl (HTTPException 403 (Text ''You don't have permission to update this post'')), ex_posts) \<and>
   delete_existing_post ex_UUID ex_decode ex_posts ''second'' ''good'' =
     (Inl (HTTPException 403 (Text ''You don't have permission to delete this post'')), ex_posts) \<and>
   delete_existing_post ex_UUID ex_decode ex_posts ''third'' ''good'' =
     (Inl (HTTPException 404 (Text ''Post not found'')), ex_posts) \<and>
   delete_comment ex_UUID ex_env ex_thread 1 (ex_user 7) =
     (Inl (HTTPException 404 (Text ''Comment not found or not authorized'')), ex_thread)"
proof -
  note t = non_author_cannot_mutate [where UUID = ex_UUID and e = ex_env and db = ex_thread and i = 1
      and cu = "ex_user 7" and body = "\<lparr>cu_content = Some ''new''\<rparr>"
      and jwt_decode = ex_decode and token = "''good''" and uid = 5
      and pdb = ex_posts and ident = "''second''"
      and post_data = "\<lparr>pu_title = Some ''T'', pu_content = None, pu_summary = None,
         pu_status = None\<rparr>"]
  note t' = non_author_cannot_mutate [where UUID = ex_UUID and e = ex_env
      and jwt_decode = ex_decode and token = "''good''" and uid = 5
      and pdb = ex_posts and ident = "''third''"]
  have v: "valid_CommentUpdate \<lparr>cu_content = Some ''new''\<rparr>"
    by (simp add: valid_CommentUpdate_def)
  have "uuid_str (author_id (ex_comment 1 None 5 False 8)) \<noteq> user_id (ex_user 7)"
    using ex_uuid_str(1) by (simp add: ex_comment_def)
  with ex_get_by_id(1)
  have h1: "get_by_id ex_thread 1 = Some (ex_comment 1 None 5 False 8) \<and>
      uuid_str (author_id (ex_comment 1 None 5 False 8)) \<noteq> user_id (ex_user 7)"
    by (rule conjI)
  have a: "update_comment ex_env ex_thread 1 \<lparr>cu_content = Some ''new''\<rparr> (ex_user 7) =
     (Inl (HTTPException 403 (Text ''Not authorized to update this comment'')), ex_thread)"
    using t [THEN conjunct1, THEN mp, OF v, THEN conjunct2, THEN spec] h1 by (rule mp)
  have "p_author_id (ex_post 2 6 ''second'' 7) \<noteq> 5" by (simp add: ex_post_def)
  with ex_find_post(1)
  have h2: "find_post ex_UUID ex_posts ''second'' = Some (ex_post 2 6 ''second'' 7) \<and>
      p_author_id (ex_post 2 6 ''second'' 7) \<noteq> 5"
    by (rule conjI)
  note b = t [THEN conjunct2, THEN conjunct1, THEN mp, OF ex_get_current_user_id, THEN conjunct2,
      THEN spec, THEN mp, OF h2]
  note c = t' [THEN conjunct2, THEN conjunct1, THEN mp, OF ex_get_current_user_id, THEN conjunct1,
      THEN mp, OF ex_find_post(2), THEN conjunct2]
  have "author_id (ex_comment 1 None 5 False 8) \<noteq> 7" by (simp add: ex_comment_def)
  with ex_user_UUID(2) ex_get_by_id(1)
  have h3: "ex_UUID (user_id (ex_user 7)) = Some 7 \<and>
      get_by_id ex_thread 1 = Some (ex_comment 1 None 5 False 8) \<and>
      author_id (ex_comment 1 None 5 False 8) \<noteq> 7"
    by (intro conjI)
  have d: "delete_comment ex_UUID ex_env ex_thread 1 (ex_user 7) =
     (Inl (HTTPException 404 (Text ''Comment not found or not authorized'')), ex_thread)"
    using t [THEN conjunct2, THEN conjunct2, THEN spec, THEN spec] h3 by (rule mp)
  from a b [THEN conjunct1] b [THEN conjunct2] c d show ?thesis by (intro conjI)
qed

text \<open>
  Claim C3. For a caller whose id is the text of a UUID, deleting a comment that does not
  exist and deleting a comment of another author end in the same way, status 404 with the
  detail \<open>Comment not found or not authorized\<close> and the table untouched; deleting one's
  own comment answers \<open>{deleted: true}\<close>.
\<close>

theorem comment_delete_merges_failures:
  "UUID (user_id cu) = Some a \<Longrightarrow>
   (get_by_id db i = None \<longrightarrow>
      delete_comment UUID e db i cu =
        (Inl (HTTPException 404 (Text ''Comment not found or not authorized'')), db)) \<and>
   (\<forall>c. get_by_id db i = Some c \<and> author_id c \<noteq> a \<longrightarrow>
      delete_comment UUID e db i cu =
        (Inl (HTTPException 404 (Text ''Comment not found or not authorized'')), db)) \<and>
   (\<forall>c. get_by_id db i = Some c \<and> author_id c = a \<longrightarrow>
      fst (delete_comment UUID e db i cu) = Inr (api_response [(''deleted'', True)]))"
  by (rule delete_comment_cases)

theorem comment_delete_merges_failures_witness:
  "delete_comment ex_UUID ex_env ex_thread 99 (ex_user 7) =
     (Inl (HTTPException 404 (Text ''Comment not found or not authorized'')), ex_thread) \<and>
   delete_comment ex_UUID ex_env ex_thread 1 (ex_user 7) =
     (Inl (HTTPException 404 (Text ''Comment not found or not authorized'')), ex_thread) \<and>
   fst (delete_comment ex_UUID ex_env ex_thread 1 (ex_user 5)) = Inr (api_response [(''deleted'', True)])"
proof -
  note t7 = comment_delete_merges_failures [where UUID = ex_UUID and cu = "ex_user 7" and a = 7
      and e = ex_env and db = ex_thread, OF ex_user_UUID(2)]
  note t5 = comment_delete_merges_failures [where UUID = ex_UUID and cu = "ex_user 5" and a = 5
      and e = ex_env and db = ex_thread, OF ex_user_UUID(1)]
  have "author_id (ex_comment 1 None 5 False 8) \<noteq> 7" by (simp add: ex_comment_def)
  with ex_get_by_id(1)
  have h2: "get_by_id ex_thread 1 = Some (ex_comment 1 None 5 False 8) \<and>
      author_id (ex_comment 1 None 5 False 8) \<noteq> 7"
    by (rule conjI)
  have "author_id (ex_comment 1 None 5 False 8) = 5" by (simp add: ex_comment_def)
  with ex_get_by_id(1)
  have h3: "get_by_id ex_thread 1 = Some (ex_comment 1 None 5 False 8) \<and>
      author_id (ex_comment 1 None 5 False 8) = 5"
    by (rule conjI)
  have a: "delete_comment ex_UUID ex_env ex_thread 99 (ex_user 7) =
     (Inl (HTTPException 404 (Text ''Comment not found or not authorized'')), ex_thread)"
    using t7 [THEN conjunct1] ex_get_by_id(2) by (rule mp)
  have b: "delete_comment ex_UUID ex_env ex_thread 1 (ex_user 7) =
     (Inl (HTTPException 404 (Text ''Comment not found or not authorized'')), ex_thread)"
    using t7 [THEN conjunct2, THEN conjunct1, THEN spec] h2 by (rule mp)
  have c: "fst (delete_comment ex_UUID ex_env ex_thread 1 (ex_user 5)) =
     Inr (api_response [(''deleted'', True)])"
    using t5 [THEN conjunct2, THEN conjunct2, THEN spec] h3 by (rule mp)
  from a b c show ?thesis by (intro conjI)
qed

section \<open>View counts\<close>

text \<open>
  Claim C7. Listing posts, with any page, limit and filters (valid or not), returns the
  database it was given: every post keeps its \<open>view_count\<close>.
\<close>

theorem listing_keeps_view_counts:
  "snd (list_all_posts UUID m db pg lmt status author tg search) = db \<and>
   map p_view_count (posts (snd (list_all_posts UUID m db pg lmt status author tg search))) =
     map p_view_count (posts db)"
  by (simp add: list_all_posts_frame)

theorem listing_keeps_view_counts_witness:
  "snd (list_all_posts ex_UUID ex_matcher ex_posts 1 20 (Some ''published'') None None None) = ex_posts"
  by (rule listing_keeps_view_counts [THEN conjunct1])

section \<open>Creating a comment\<close>

text \<open>
  Claim C5. When \<open>POST /comments\<close> succeeds, one row has been added, the response is that
  row, and the row's \<open>author_id\<close> is the UUID that the caller's verified id spells. The
  request body has no author field, and two bodies that both succeed for the same caller
  store the same author. A well-formed body that names a post, sent by a caller whose id
  is the text of a UUID, does succeed.
\<close>

theorem created_comment_author_is_caller:
  "(\<forall>resp db'. create_comment UUID e db body cu = (Inr resp, db') \<longrightarrow>
      (\<exists>c. db' = db @ [c] \<and> data resp = Some (model_validate c) \<and>
           r_author_id (model_validate c) = author_id c \<and>
           UUID (user_id cu) = Some (author_id c))) \<and>
   (\<forall>a p. valid_CommentCreate body \<and> cc_post_id body = Some p \<and> UUID (user_id cu) = Some a \<longrightarrow>
      (\<exists>c. create_comment UUID e db body cu = (Inr (api_response (model_validate c)), db @ [c]) \<and>
           author_id c = a)) \<and>
   (\<forall>body' resp resp' d d'.
      create_comment UUID e db body cu = (Inr resp, d) \<and>
      create_comment UUID e db body' cu = (Inr resp', d') \<longrightarrow>
      map_option r_author_id (data resp) = map_option r_author_id (data resp'))"
proof (intro conjI allI impI)
  fix resp db' assume "create_comment UUID e db body cu = (Inr resp, db')"
  from create_comment_success [OF this]
  show "\<exists>c. db' = db @ [c] \<and> data resp = Some (model_validate c) \<and>
           r_author_id (model_validate c) = author_id c \<and>
           UUID (user_id cu) = Some (author_id c)"
    by (auto simp add: data_api_response model_validate_owner)
next
  fix a p
  assume "valid_CommentCreate body \<and> cc_post_id body = Some p \<and> UUID (user_id cu) = Some a"
  then show "\<exists>c. create_comment UUID e db body cu =
      (Inr (api_response (model_validate c)), db @ [c]) \<and> author_id c = a"
    using create_comment_succeeds by blast
next
  fix body' resp resp' d d'
  assume h: "create_comment UUID e db body cu = (Inr resp, d) \<and>
      create_comment UUID e db body' cu = (Inr resp', d')"
  from h create_comment_success [where UUID = UUID and e = e and db = db and body = body
      and cu = cu and resp = resp and db' = d] obtain c where
    c: "resp = api_response (model_validate c)" "UUID (user_id cu) = Some (author_id c)"
    by blast
  from h create_comment_success [where UUID = UUID and e = e and db = db and body = body'
      and cu = cu and resp = resp' and db' = d'] obtain c' where
    c': "resp' = api_response (model_validate c')" "UUID (user_id cu) = Some (author_id c')"
    by blast
  from c c' show "map_option r_author_id (data resp) = map_option r_author_id (data resp')"
    by (simp add: data_api_response model_validate_owner)
qed

theorem created_comment_author_is_caller_witness:
  "\<exists>c. create_comment ex_UUID ex_env ex_thread
          \<lparr>cc_content = ''hello'', cc_post_id = Some 9, cc_parent_id = Some 1\<rparr> (ex_user 5) =
        (Inr (api_response (model_validate c)), ex_thread @ [c]) \<and> author_id c = 5"
proof -
  have v: "valid_CommentCreate \<lparr>cc_content = ''hello'', cc_post_id = Some 9, cc_parent_id = Some 1\<rparr>"
    by (simp add: valid_CommentCreate_def)
  have p: "cc_post_id \<lparr>cc_content = ''hello'', cc_post_id = Some 9, cc_parent_id = Some 1\<rparr> = Some 9"
    by simp
  from v p ex_user_UUID(1)
  have h: "valid_CommentCreate \<lparr>cc_content = ''hello'', cc_post_id = Some 9, cc_parent_id = Some 1\<rparr> \<and>
      cc_post_id \<lparr>cc_content = ''hello'', cc_post_id = Some 9, cc_parent_id = Some 1\<rparr> = Some 9 \<and>
      ex_UUID (user_id (ex_user 5)) = Some 5"
    by (intro conjI)
  show ?thesis
    using created_comment_author_is_caller [where UUID = ex_UUID and e = ex_env and db = ex_thread
        and cu = "ex_user 5"
        and body = "\<lparr>cc_content = ''hello'', cc_post_id = Some 9, cc_parent_id = Some 1\<rparr>",
        THEN conjunct2, THEN conjunct1, THEN spec, THEN spec] h
    by (rule mp)
qed

text \<open>
  Claim C10. When \<open>POST /comments/post/{post_id}\<close> succeeds, the stored comment's
  \<open>post_id\<close> is the one of the path. Whatever \<open>post_id\<close> the body carries makes no
  difference to the outcome: it is overridden, and a well-formed body is not refused on
  its account.
\<close>

theorem created_comment_post_is_path:
  "(\<forall>resp db'. create_comment_by_post UUID e db p body cu = (Inr resp, db') \<longrightarrow>
      (\<exists>c. db' = db @ [c] \<and> data resp = Some (model_validate c) \<and>
           r_post_id (model_validate c) = p \<and> post_id c = p)) \<and>
   (\<forall>x. create_comment_by_post UUID e db p (body\<lparr>cc_post_id := x\<rparr>) cu =
        create_comment_by_post UUID e db p body cu) \<and>
   (\<forall>a. valid_CommentCreate body \<and> UUID (user_id cu) = Some a \<longrightarrow>
      (\<exists>c. create_comment_by_post UUID e db p body cu =
             (Inr (api_response (model_validate c)), db @ [c]) \<and> post_id c = p))"
proof (intro conjI allI impI)
  fix resp db' assume "create_comment_by_post UUID e db p body cu = (Inr resp, db')"
  then have "create_comment UUID e db (body\<lparr>cc_post_id := Some p\<rparr>) cu = (Inr resp, db')"
    by (simp add: create_comment_by_post_eq)
  from create_comment_success [OF this]
  show "\<exists>c. db' = db @ [c] \<and> data resp = Some (model_validate c) \<and>
           r_post_id (model_validate c) = p \<and> post_id c = p"
    by (auto simp add: data_api_response model_validate_owner)
next
  fix x
  show "create_comment_by_post UUID e db p (body\<lparr>cc_post_id := x\<rparr>) cu =
        create_comment_by_post UUID e db p body cu"
    by (simp add: create_comment_by_post_def valid_CommentCreate_def)
next
  fix a assume h: "valid_CommentCreate body \<and> UUID (user_id cu) = Some a"
  then have v: "valid_CommentCreate (body\<lparr>cc_post_id := Some p\<rparr>)"
    by (simp add: valid_CommentCreate_def)
  have pp: "cc_post_id (body\<lparr>cc_post_id := Some p\<rparr>) = Some p" by simp
  from h have u: "UUID (user_id cu) = Some a" by simp
  from create_comment_succeeds [where UUID = UUID and cu = cu and a = a and e = e and db = db,
      OF v pp u] obtain c where
    c: "create_comment UUID e db (body\<lparr>cc_post_id := Some p\<rparr>) cu =
          (Inr (api_response (model_validate c)), db @ [c])" by blast
  from create_comment_success [OF c] have "post_id c = p" by simp
  with c show "\<exists>c. create_comment_by_post UUID e db p body cu =
             (Inr (api_response (model_validate c)), db @ [c]) \<and> post_id c = p"
    by (auto simp add: create_comment_by_post_eq)
qed

theorem created_comment_post_is_path_witness:
  "\<exists>c. create_comment_by_post ex_UUID ex_env ex_thread 9
          \<lparr>cc_content = ''hello'', cc_post_id = Some 4, cc_parent_id = None\<rparr> (ex_user 5) =
        (Inr (api_response (model_validate c)), ex_thread @ [c]) \<and> post_id c = 9"
proof -
  have v: "valid_CommentCreate \<lparr>cc_content = ''hello'', cc_post_id = Some 4, cc_parent_id = None\<rparr>"
    by (simp add: valid_CommentCreate_def)
  from v ex_user_UUID(1)
  have h: "valid_CommentCreate \<lparr>cc_content = ''hello'', cc_post_id = Some 4, cc_parent_id = None\<rparr> \<and>
      ex_UUID (user_id (ex_user 5)) = Some 5"
    by (intro conjI)
  show ?thesis
    using created_comment_post_is_path [where UUID = ex_UUID and e = ex_env and db = ex_thread and p = 9
        and cu = "ex_user 5"
        and body = "\<lparr>cc_content = ''hello'', cc_post_id = Some 4, cc_parent_id = None\<rparr>",
        THEN conjunct2, THEN conjunct2, THEN spec] h
    by (rule mp)
qed

text \<open>
  Claim C6. Fetching a post by its slug: when no post has the slug the request ends with
  404 and the database is as before. Otherwise the stored \<open>view_count\<close> of that post is
  one more than it was, the response reports that same number, and a second lookup by the
  slug finds the post with the raised count; posts with another id and the profiles are
  as before.
\<close>

theorem get_post_counts_one_view:
  "(get_post_by_slug db slug = None \<longrightarrow>
      get_post db slug = (Inl (HTTPException 404 (Text ''Post not found'')), db)) \<and>
   (\<forall>p. get_post_by_slug db slug = Some p \<longrightarrow>
      (\<exists>resp db'. get_post db slug = (Inr resp, db') \<and>
         get_post_by_slug db' slug = Some (p\<lparr>p_view_count := p_view_count p + 1\<rparr>) \<and>
         map_option d_view_count (ps_data resp) = Some (p_view_count p + 1) \<and>
         posts db' =
           map (\<lambda>q. if p_id q = p_id p then q\<lparr>p_view_count := p_view_count q + 1\<rparr> else q)
             (posts db) \<and>
         profiles db' = profiles db))"
proof (intro conjI allI impI)
  assume "get_post_by_slug db slug = None"
  then show "get_post db slug = (Inl (HTTPException 404 (Text ''Post not found'')), db)"
    by (rule get_post_absent)
next
  fix p assume p: "get_post_by_slug db slug = Some p"
  from get_post_present [OF p] obtain resp where
    r: "get_post db slug = (Inr resp, increment_view_count db (p_id p))"
       "map_option d_view_count (ps_data resp) = Some (p_view_count p + 1)"
    by blast
  have s: "get_post_by_slug (increment_view_count db (p_id p)) slug =
      Some (p\<lparr>p_view_count := p_view_count p + 1\<rparr>)"
    by (simp add: get_post_by_slug_incremented p)
  from r s increment_view_count_rows [of db "p_id p"]
  show "\<exists>resp db'. get_post db slug = (Inr resp, db') \<and>
         get_post_by_slug db' slug = Some (p\<lparr>p_view_count := p_view_count p + 1\<rparr>) \<and>
         map_option d_view_count (ps_data resp) = Some (p_view_count p + 1) \<and>
         posts db' =
           map (\<lambda>q. if p_id q = p_id p then q\<lparr>p_view_count := p_view_count q + 1\<rparr> else q)
             (posts db) \<and>
         profiles db' = profiles db"
    by blast
qed

theorem get_post_counts_one_view_witness:
  "get_post ex_posts ''third'' = (Inl (HTTPException 404 (Text ''Post not found'')), ex_posts) \<and>
   (\<exists>resp db'. get_post ex_posts ''first'' = (Inr resp, db') \<and>
      get_post_by_slug db' ''first'' =
        Some ((ex_post 1 5 ''first'' 41)\<lparr>p_view_count := p_view_count (ex_post 1 5 ''first'' 41) + 1\<rparr>) \<and>
      map_option d_view_count (ps_data resp) = Some (p_view_count (ex_post 1 5 ''first'' 41) + 1) \<and>
      posts db' =
        map (\<lambda>q. if p_id q = p_id (ex_post 1 5 ''first'' 41)
                  then q\<lparr>p_view_count := p_view_count q + 1\<rparr> else q) (posts ex_posts) \<and>
      profiles db' = profiles ex_posts)"
proof (rule conjI)
  show "get_post ex_posts ''third'' =
      (Inl (HTTPException 404 (Text ''Post not found'')), ex_posts)"
    using get_post_counts_one_view [where db = ex_posts and slug = "''third''", THEN conjunct1]
      ex_get_post_by_slug(2)
    by (rule mp)
  show "\<exists>resp db'. get_post ex_posts ''first'' = (Inr resp, db') \<and>
      get_post_by_slug db' ''first'' =
        Some ((ex_post 1 5 ''first'' 41)\<lparr>p_view_count := p_view_count (ex_post 1 5 ''first'' 41) + 1\<rparr>) \<and>
      map_option d_view_count (ps_data resp) = Some (p_view_count (ex_post 1 5 ''first'' 41) + 1) \<and>
      posts db' =
        map (\<lambda>q. if p_id q = p_id (ex_post 1 5 ''first'' 41)
                  then q\<lparr>p_view_count := p_view_count q + 1\<rparr> else q) (posts ex_posts) \<and>
      profiles db' = profiles ex_posts"
    using get_post_counts_one_view [where db = ex_posts and slug = "''first''", THEN conjunct2,
        THEN spec] ex_get_post_by_slug(1)
    by (rule mp)
qed

section \<open>Pagination\<close>



end
